theory Spec2Isabelle
  imports Complex_Main "HOL-Library.Sublist" "HOL-Library.Log_Nat" "HOL-Library.Multiset"
    "HOL-Library.Code_Target_Numeral"
begin

section \<open>JavaScript values\<close>

text \<open>
  The handlers of \<^verbatim>\<open>server.js\<close> read loosely typed request bodies, so the values of
  the language are modelled as a datatype. A number is a double: a finite one is written
  as the rational it denotes (the two zeros are not told apart, as \<^verbatim>\<open>===\<close> and JSON
  do not tell them apart). Strings are Isabelle strings; a character is one character of
  the JavaScript string with a code below 256. \<open>Date\<close> carries the time value in
  milliseconds.
\<close>

datatype jsnum = Fin rat | NaN | PInf | NInf

datatype jsval =
    Undefined
  | Null
  | Bool bool
  | Num jsnum
  | Str string
  | Date nat
  | Arr "jsval list"
  | Obj "(string \<times> jsval) list"

text \<open>\<^verbatim>\<open>!v\<close> is \<open>\<not> truthy v\<close>: the falsy values are \<^verbatim>\<open>undefined\<close>, \<^verbatim>\<open>null\<close>,
  \<^verbatim>\<open>false\<close>, \<^verbatim>\<open>0\<close>, \<^verbatim>\<open>NaN\<close> and the empty string.\<close>

fun truthy :: "jsval \<Rightarrow> bool" where
  "truthy Undefined = False"
| "truthy Null = False"
| "truthy (Bool b) = b"
| "truthy (Num (Fin x)) = (x \<noteq> 0)"
| "truthy (Num NaN) = False"
| "truthy (Num PInf) = True"
| "truthy (Num NInf) = True"
| "truthy (Str s) = (s \<noteq> [])"
| "truthy (Date t) = True"
| "truthy (Arr xs) = True"
| "truthy (Obj kvs) = True"

text \<open>\<^verbatim>\<open>a || b\<close>\<close>

definition or_else :: "jsval \<Rightarrow> jsval \<Rightarrow> jsval" where
  "or_else a b = (if truthy a then a else b)"

text \<open>A request body (and a query string) as the body parser leaves it: an object.
  \<^verbatim>\<open>const { userId } = req.body\<close> reads a property, \<^verbatim>\<open>undefined\<close> when it is absent.\<close>

type_synonym body = "(string \<times> jsval) list"

definition field :: "body \<Rightarrow> string \<Rightarrow> jsval" where
  "field b k = (case map_of b k of Some v \<Rightarrow> v | None \<Rightarrow> Undefined)"

text \<open>What a \<^verbatim>\<open>catch (err)\<close> receives: an error of the database driver with its
  \<^verbatim>\<open>err.code\<close>, a \<^verbatim>\<open>TypeError\<close> of the language, or an error of a library.\<close>

datatype error = SqlError string | TypeError | LibError

fun code :: "error \<Rightarrow> string option" where
  "code (SqlError c) = Some c"
| "code TypeError = None"
| "code LibError = None"

section \<open>Strings\<close>

text \<open>A non-negative integer as a template literal prints it: its decimal digits, the
  most significant first. \<open>decimal n rest\<close> puts the digits of \<open>n\<close> in front of
  \<open>rest\<close>.\<close>

fun decimal :: "nat \<Rightarrow> string \<Rightarrow> string" where
  "decimal n rest =
     (if n < 10 then char_of (48 + n) # rest
      else decimal (n div 10) (char_of (48 + n mod 10) # rest))"

declare decimal.simps [simp del]

definition decimal_string :: "nat \<Rightarrow> string" where
  "decimal_string n = decimal n []"

text \<open>The class \<^verbatim>\<open>\s\<close> on characters below 256: tab, line feed, vertical tab, form
  feed, carriage return, space, and the no-break space.\<close>

definition is_space :: "char \<Rightarrow> bool" where
  "is_space c = ((of_char c :: nat) \<in> {9, 10, 11, 12, 13, 32, 160})"

text \<open>\<^verbatim>\<open>s.replace(/\s+/g, '_')\<close>: every maximal run of whitespace becomes one
  underscore.\<close>

function replace_ws :: "string \<Rightarrow> string" where
  "replace_ws [] = []"
| "replace_ws (c # cs) =
     (if is_space c then CHR ''_'' # replace_ws (dropWhile is_space cs)
      else c # replace_ws cs)"
  by pat_completeness auto
termination
  by (relation "measure length") (auto simp: length_dropWhile_le less_Suc_eq_le)

text \<open>A property name that is an array index: the decimal digits of a number, without
  leading zeros.\<close>

definition is_digit :: "char \<Rightarrow> bool" where
  "is_digit c = (48 \<le> (of_char c :: nat) \<and> (of_char c :: nat) \<le> 57)"

definition array_index :: "string \<Rightarrow> nat option" where
  "array_index k =
     (if k \<noteq> [] \<and> list_all is_digit k \<and> (k = ''0'' \<or> hd k \<noteq> CHR ''0'')
      then Some (foldl (\<lambda>n c. 10 * n + ((of_char c :: nat) - 48)) 0 k)
      else None)"

text \<open>\<^verbatim>\<open>v[k]\<close> on a value that is neither \<^verbatim>\<open>undefined\<close> nor \<^verbatim>\<open>null\<close>, for a key
  \<open>k\<close> that names no built-in property (the keys read here are \<^verbatim>\<open>rates\<close> and
  upper-case strings): an own property of an object, an element of an array, a character
  of a string.\<close>

fun get_prop :: "jsval \<Rightarrow> string \<Rightarrow> jsval" where
  "get_prop (Obj kvs) k = (case map_of kvs k of Some v \<Rightarrow> v | None \<Rightarrow> Undefined)"
| "get_prop (Arr xs) k =
     (case array_index k of
        Some i \<Rightarrow> if i < length xs then xs ! i else Undefined
      | None \<Rightarrow> Undefined)"
| "get_prop (Str s) k =
     (case array_index k of
        Some i \<Rightarrow> if i < length s then Str [s ! i] else Undefined
      | None \<Rightarrow> Undefined)"
| "get_prop v k = Undefined"

text \<open>\<^verbatim>\<open>v?.[k]\<close>\<close>

definition opt_chain :: "jsval \<Rightarrow> string \<Rightarrow> jsval" where
  "opt_chain v k = (if v = Undefined \<or> v = Null then Undefined else get_prop v k)"

section \<open>Numbers\<close>

text \<open>
  The arithmetic of the plan listing is that of IEEE 754 doubles. \<open>to_double\<close> rounds a
  rational to the nearest double, ties to the even significand: \<open>y\<close> is the magnitude
  in units of the least positive double \<open>2\<^sup>-\<^sup>1\<^sup>0\<^sup>7\<^sup>4\<close>, the doubles near \<open>y\<close> are
  \<open>2\<^sup>k\<close> units apart (a significand has 53 bits), and a result of \<open>2\<^sup>1\<^sup>0\<^sup>2\<^sup>4\<close>
  or more is an infinity.
\<close>

definition round_half_even :: "rat \<Rightarrow> int" where
  "round_half_even q =
     (let f = \<lfloor>q\<rfloor>; d = q - of_int f
      in if d < 1 / 2 then f else if 1 / 2 < d then f + 1
         else if even f then f else f + 1)"

definition to_double :: "rat \<Rightarrow> jsnum" where
  "to_double x =
     (let y = \<bar>x\<bar> * 2 ^ 1074;
          k = floorlog 2 (nat \<lfloor>y\<rfloor>) - 53;
          n = round_half_even (y / 2 ^ k);
          r = of_int n * 2 ^ k / 2 ^ 1074
      in if 2 ^ 1024 \<le> r then (if 0 < x then PInf else NInf)
         else Fin (if x < 0 then - r else r))"


text \<open>\<^verbatim>\<open>a * b\<close> on numbers.\<close>

fun js_mul :: "jsnum \<Rightarrow> jsnum \<Rightarrow> jsnum" where
  "js_mul (Fin a) (Fin b) = to_double (a * b)"
| "js_mul NaN b = NaN"
| "js_mul a NaN = NaN"
| "js_mul (Fin a) PInf = (if a = 0 then NaN else if 0 < a then PInf else NInf)"
| "js_mul (Fin a) NInf = (if a = 0 then NaN else if 0 < a then NInf else PInf)"
| "js_mul PInf (Fin b) = (if b = 0 then NaN else if 0 < b then PInf else NInf)"
| "js_mul NInf (Fin b) = (if b = 0 then NaN else if 0 < b then NInf else PInf)"
| "js_mul PInf PInf = PInf"
| "js_mul PInf NInf = NInf"
| "js_mul NInf PInf = NInf"
| "js_mul NInf NInf = PInf"

text \<open>\<^verbatim>\<open>Number(x.toFixed(2))\<close>. For a finite \<open>x\<close> below \<open>10\<^sup>2\<^sup>1\<close> in magnitude,
  \<^verbatim>\<open>toFixed(2)\<close> prints the integer \<open>n\<close> for which \<open>n / 100\<close> is nearest to the
  magnitude of \<open>x\<close> (the larger of two), with the sign of \<open>x\<close>, and \<^verbatim>\<open>Number\<close> reads
  the decimal back as the nearest double; in every other case \<^verbatim>\<open>toFixed\<close> prints the
  number as \<^verbatim>\<open>String\<close> does and \<^verbatim>\<open>Number\<close> reads the same number back.\<close>

fun toFixed2_Number :: "jsnum \<Rightarrow> jsnum" where
  "toFixed2_Number (Fin x) =
     (if 10 ^ 21 \<le> \<bar>x\<bar> then Fin x
      else let n = \<lfloor>\<bar>x\<bar> * 100 + 1 / 2\<rfloor>
           in to_double ((if x < 0 then - 1 else 1) * of_int n / 100))"
| "toFixed2_Number NaN = NaN"
| "toFixed2_Number PInf = PInf"
| "toFixed2_Number NInf = NInf"

section \<open>The store\<close>

text \<open>
  Modelled from the spec: the schema of the database (the SQL that creates the tables is
  not in the repository). The six tables follow the data model of the specification and
  the columns the statements of \<^verbatim>\<open>server.js\<close> name: a table is the list of its rows in
  insertion order, \<^verbatim>\<open>id\<close> is the auto-increment key, \<^verbatim>\<open>email\<close> is unique in
  \<^verbatim>\<open>users\<close>, \<^verbatim>\<open>created_at\<close> is set by the store at insertion, a column the
  \<^verbatim>\<open>INSERT\<close> does not name is \<^verbatim>\<open>NULL\<close>, and the references \<^verbatim>\<open>admin_id\<close>,
  \<^verbatim>\<open>user_id\<close>, \<^verbatim>\<open>service_id\<close> and \<^verbatim>\<open>plan_id\<close> are not checked. A column
  holds the value that was bound to its placeholder.
\<close>

datatype sqlval = SqlNull | SqlNum rat | SqlStr string | SqlDate nat

text \<open>The value the driver hands back for a column.\<close>

fun js_of_sql :: "sqlval \<Rightarrow> jsval" where
  "js_of_sql SqlNull = Null"
| "js_of_sql (SqlNum x) = Num (Fin x)"
| "js_of_sql (SqlStr s) = Str s"
| "js_of_sql (SqlDate t) = Date t"

record user_row =
  u_id :: nat
  u_name :: sqlval
  u_email :: sqlval
  u_password :: sqlval
  u_account_type :: sqlval
  u_verified :: sqlval
  u_subscription_expires_at :: sqlval

record plan_row =
  p_id :: nat
  p_admin_id :: sqlval
  p_name :: sqlval
  p_description :: sqlval
  p_price_usd :: sqlval
  p_duration_days :: sqlval
  p_active :: sqlval
  p_created_at :: nat

record service_row =
  s_id :: nat
  s_service :: sqlval
  s_level :: sqlval
  s_admin_id :: sqlval
  s_created_at :: nat

record announcement_row =
  a_id :: nat
  a_title :: sqlval
  a_content :: sqlval
  a_admin_id :: sqlval
  a_created_at :: nat

record work_row =
  w_id :: nat
  w_title :: sqlval
  w_description :: sqlval
  w_file_path :: sqlval
  w_admin_id :: sqlval
  w_created_at :: nat

record subscription_row =
  sub_id :: nat
  sub_user_id :: sqlval
  sub_service_id :: sqlval
  sub_plan_id :: sqlval

text \<open>The state the handlers act on: the six tables, and the names of the files written
  under \<^verbatim>\<open>uploads/\<close>, latest last.\<close>

record store =
  users :: "user_row list"
  plans :: "plan_row list"
  services :: "service_row list"
  announcements :: "announcement_row list"
  work :: "work_row list"
  subscriptions :: "subscription_row list"
  uploads :: "string list"

text \<open>The statements that list a table \<^verbatim>\<open>ORDER BY created_at DESC\<close>.\<close>

datatype listing =
    PlansListing
  | ServicesRich
  | ServicesLegacy
  | AnnouncementsRich
  | AnnouncementsLegacy
  | WorkListing

text \<open>
  What a request meets outside the handler:

  \<^item> whether the store raises an error on the statement for a reason outside this model (it
    is unreachable, a constraint of the schema is violated), and the clock of the store
    and of the process;

  \<^item> what the store makes of an object bound to a placeholder. How the driver writes an
    object depends on its configuration and on whether the object is inside an array (as
    text, or as a list of assignments), and what a list of assignments means is decided
    by the statement around it and by the schema: \<open>bind_object e nested kvs\<close> is what
    a \<^verbatim>\<open>VALUES\<close> list gets for the object, if it gets a value;

  \<^item> which users \<^verbatim>\<open>WHERE email = ?\<close> selects when the placeholder is bound to
    something that is neither a string nor \<^verbatim>\<open>NULL\<close> (a number or a boolean, which
    the store compares with the text of the column by its own conversion, or an object),
    if the statement runs: \<open>where_other e nested v\<close>;

  \<^item> the order in which a listing returns rows of one instant: SQL leaves it to the store,
    statement by statement, and \<open>tie_rank e l\<close> ranks the rows (by their id) for the
    statement \<open>l\<close>;

  \<^item> the library \<^verbatim>\<open>bcryptjs\<close> on strings: the hash of a password (the salt is random,
    so the hash is an input here) and the comparison of a password with a hash, which
    throws on a hash it cannot read;

  \<^item> the library \<^verbatim>\<open>axios\<close>, which returns or throws, and the directory of the script;

  \<^item> the upper-case forms of the two characters below 256 whose upper-case form has a
    code above 255, which a string here cannot hold;

  \<^item> the conversions of the language from a string and from an object to a number (the
    second can throw).
\<close>

record env =
  db_fault :: "error option"
  db_time :: nat
  date_now :: nat
  bind_object :: "bool \<Rightarrow> (string \<times> jsval) list \<Rightarrow> sqlval option"
  where_other :: "bool \<Rightarrow> jsval \<Rightarrow> (user_row \<Rightarrow> bool) option"
  tie_rank :: "listing \<Rightarrow> nat \<Rightarrow> nat"
  bcrypt_salted :: "string \<Rightarrow> string"
  bcrypt_check :: "string \<Rightarrow> string \<Rightarrow> error + bool"
  axios_get :: "string \<Rightarrow> error + jsval"
  dirname :: string
  upper_wide :: "char \<Rightarrow> string"
  string_to_number :: "string \<Rightarrow> jsnum"
  object_to_number :: "jsval \<Rightarrow> error + jsnum"

text \<open>\<^verbatim>\<open>s.toUpperCase()\<close> maps every character on its own: the letters \<^verbatim>\<open>a\<close> to
  \<^verbatim>\<open>z\<close> and the letters with codes 224 to 254 (but not the division sign, 247) to the
  character 32 below, the sharp s (223) to \<^verbatim>\<open>SS\<close>, the micro sign (181) and the y with
  diaeresis (255) to what the environment says, and every other character to itself.\<close>

definition upper_char :: "env \<Rightarrow> char \<Rightarrow> string" where
  "upper_char e c =
     (let n = (of_char c :: nat)
      in if 97 \<le> n \<and> n \<le> 122 then [char_of (n - 32)]
         else if n = 223 then ''SS''
         else if n = 181 \<or> n = 255 then upper_wide e c
         else if 224 \<le> n \<and> n \<le> 254 \<and> n \<noteq> 247 then [char_of (n - 32)]
         else [c])"

definition toUpperCase :: "env \<Rightarrow> string \<Rightarrow> string" where
  "toUpperCase e s = concat (map (upper_char e) s)"

text \<open>
  The driver writes the value bound to a placeholder into the statement:
  \<^verbatim>\<open>undefined\<close> and \<^verbatim>\<open>null\<close> as \<^verbatim>\<open>NULL\<close>, booleans as \<^verbatim>\<open>true\<close> and \<^verbatim>\<open>false\<close> (1
  and 0), numbers and strings as literals, a date as a literal, and an array as the list
  of its elements, separated by commas, an element that is itself an array in
  parentheses. A placeholder of the statements here stands where one value is expected,
  so the statement runs only if what is written is one value: a non-finite number is
  written as a bare word, which is none, an array of one element is that element, and
  every other array makes the statement fail. \<open>bind_element\<close> is the value of an element
  of an array, \<open>bind_param\<close> the value of a placeholder.
\<close>

fun bind_element :: "env \<Rightarrow> jsval \<Rightarrow> sqlval option" where
  "bind_element e Undefined = Some SqlNull"
| "bind_element e Null = Some SqlNull"
| "bind_element e (Bool b) = Some (SqlNum (if b then 1 else 0))"
| "bind_element e (Num (Fin x)) = Some (SqlNum x)"
| "bind_element e (Num NaN) = None"
| "bind_element e (Num PInf) = None"
| "bind_element e (Num NInf) = None"
| "bind_element e (Str s) = Some (SqlStr s)"
| "bind_element e (Date t) = Some (SqlDate t)"
| "bind_element e (Arr []) = None"
| "bind_element e (Arr [x]) = bind_element e x"
| "bind_element e (Arr (x # y # zs)) = None"
| "bind_element e (Obj kvs) = bind_object e True kvs"

fun bind_param :: "env \<Rightarrow> jsval \<Rightarrow> sqlval option" where
  "bind_param e (Arr xs) = bind_element e (Arr xs)"
| "bind_param e (Obj kvs) = bind_object e False kvs"
| "bind_param e v = bind_element e v"

definition next_id :: "nat list \<Rightarrow> nat" where
  "next_id ids = Suc (foldr max ids 0)"

text \<open>A statement runs once the store is reachable and every placeholder has its value.\<close>

definition bind_all :: "env \<Rightarrow> jsval list \<Rightarrow> error + sqlval list" where
  "bind_all e vs =
     (case db_fault e of
        Some err \<Rightarrow> Inl err
      | None \<Rightarrow>
          if list_all (\<lambda>v. bind_param e v \<noteq> None) vs
          then Inr (map (\<lambda>v. the (bind_param e v)) vs)
          else Inl (SqlError ''ER_PARSE_ERROR''))"

text \<open>\<^verbatim>\<open>ORDER BY created_at DESC\<close>: newest first, and rows of one instant by the rank
  the store gives them for this statement (rows it ranks alike stay as they are in the
  table). Both sorts are stable.\<close>

definition order_by_desc ::
  "(nat \<Rightarrow> nat) \<Rightarrow> ('a \<Rightarrow> nat) \<Rightarrow> ('a \<Rightarrow> nat) \<Rightarrow> 'a list \<Rightarrow> 'a list" where
  "order_by_desc rank created ident rows =
     sort_key (\<lambda>r. - int (created r)) (sort_key (\<lambda>r. rank (ident r)) rows)"

text \<open>\<^verbatim>\<open>FROM t LEFT JOIN users u ON t.admin_id = u.id\<close>, keeping \<^verbatim>\<open>u.name\<close>: a row
  of \<open>t\<close> comes once for every user it matches, and once with \<^verbatim>\<open>NULL\<close> when it matches
  none.\<close>

definition left_join_users ::
  "user_row list \<Rightarrow> ('a \<Rightarrow> sqlval) \<Rightarrow> 'a list \<Rightarrow> ('a \<times> sqlval) list" where
  "left_join_users us admin_id rows =
     concat (map (\<lambda>r. case filter (\<lambda>u. admin_id r = SqlNum (of_nat (u_id u))) us of
                         [] \<Rightarrow> [(r, SqlNull)]
                       | m # ms \<Rightarrow> map (\<lambda>u. (r, u_name u)) (m # ms)) rows)"

definition js_of_id :: "nat \<Rightarrow> jsval" where
  "js_of_id i = Num (Fin (of_nat i))"

subsection \<open>users\<close>

text \<open>\<^verbatim>\<open>INSERT INTO users (name, email, password, account_type) VALUES (?, ?, ?, ?)\<close>;
  \<^verbatim>\<open>email\<close> is unique.\<close>

definition insert_user ::
  "env \<Rightarrow> store \<Rightarrow> jsval \<Rightarrow> jsval \<Rightarrow> jsval \<Rightarrow> jsval \<Rightarrow> error + store" where
  "insert_user e s name email hashed accountType =
     (case bind_all e [name, email, hashed, accountType] of
        Inl err \<Rightarrow> Inl err
      | Inr vs \<Rightarrow>
          if vs ! 1 \<in> set (map u_email (users s)) then Inl (SqlError ''ER_DUP_ENTRY'')
          else Inr (s\<lparr>users := users s @
                 [\<lparr>u_id = next_id (map u_id (users s)), u_name = vs ! 0, u_email = vs ! 1,
                   u_password = vs ! 2, u_account_type = vs ! 3, u_verified = SqlNull,
                   u_subscription_expires_at = SqlNull\<rparr>]\<rparr>))"

definition user_object :: "user_row \<Rightarrow> body" where
  "user_object u =
     [(''id'', js_of_id (u_id u)), (''name'', js_of_sql (u_name u)),
      (''email'', js_of_sql (u_email u)), (''password'', js_of_sql (u_password u)),
      (''account_type'', js_of_sql (u_account_type u)),
      (''verified'', js_of_sql (u_verified u)),
      (''subscription_expires_at'', js_of_sql (u_subscription_expires_at u))]"

text \<open>The condition \<^verbatim>\<open>email = ?\<close> on a user, if the statement runs with the value
  bound to the placeholder: a string selects the users with that email, nothing equals
  \<^verbatim>\<open>NULL\<close>, an array of one element is that element, every other array makes the
  statement fail, and the rest is left to the store.\<close>

fun email_condition :: "env \<Rightarrow> bool \<Rightarrow> jsval \<Rightarrow> (user_row \<Rightarrow> bool) option" where
  "email_condition e nested (Str m) = Some (\<lambda>u. u_email u = SqlStr m)"
| "email_condition e nested Undefined = Some (\<lambda>u. False)"
| "email_condition e nested Null = Some (\<lambda>u. False)"
| "email_condition e nested (Arr []) = None"
| "email_condition e nested (Arr [x]) = email_condition e True x"
| "email_condition e nested (Arr (x # y # zs)) = None"
| "email_condition e nested v = where_other e nested v"

text \<open>\<^verbatim>\<open>SELECT * FROM users WHERE email = ?\<close>\<close>

definition select_users_by_email :: "env \<Rightarrow> store \<Rightarrow> jsval \<Rightarrow> error + body list" where
  "select_users_by_email e s email =
     (case db_fault e of
        Some err \<Rightarrow> Inl err
      | None \<Rightarrow>
          (case email_condition e False email of
             None \<Rightarrow> Inl (SqlError ''ER_PARSE_ERROR'')
           | Some selected \<Rightarrow> Inr (map user_object (filter selected (users s)))))"

subsection \<open>plans\<close>

text \<open>\<^verbatim>\<open>INSERT INTO plans (admin_id, name, description, price_usd, duration_days, active)
  VALUES (?, ?, ?, ?, ?, 1)\<close>; the result carries \<^verbatim>\<open>insertId\<close>.\<close>

definition insert_plan ::
  "env \<Rightarrow> store \<Rightarrow> jsval \<Rightarrow> jsval \<Rightarrow> jsval \<Rightarrow> jsval \<Rightarrow> jsval \<Rightarrow> error + (nat \<times> store)" where
  "insert_plan e s adminId name description price duration =
     (case bind_all e [adminId, name, description, price, duration] of
        Inl err \<Rightarrow> Inl err
      | Inr vs \<Rightarrow>
          let insertId = next_id (map p_id (plans s))
          in Inr (insertId, s\<lparr>plans := plans s @
                 [\<lparr>p_id = insertId, p_admin_id = vs ! 0, p_name = vs ! 1,
                   p_description = vs ! 2, p_price_usd = vs ! 3, p_duration_days = vs ! 4,
                   p_active = SqlNum 1, p_created_at = db_time e\<rparr>]\<rparr>))"

definition plan_object :: "plan_row \<times> sqlval \<Rightarrow> body" where
  "plan_object r =
     (case r of (p, admin_name) \<Rightarrow>
       [(''id'', js_of_id (p_id p)), (''admin_id'', js_of_sql (p_admin_id p)),
        (''name'', js_of_sql (p_name p)), (''description'', js_of_sql (p_description p)),
        (''price_usd'', js_of_sql (p_price_usd p)),
        (''duration_days'', js_of_sql (p_duration_days p)),
        (''active'', js_of_sql (p_active p)), (''created_at'', Date (p_created_at p)),
        (''admin_name'', js_of_sql admin_name)])"

text \<open>\<^verbatim>\<open>SELECT p.*, u.name AS admin_name FROM plans p LEFT JOIN users u ON p.admin_id = u.id
  WHERE p.active = 1 ORDER BY p.created_at DESC\<close>\<close>

definition select_active_plans :: "env \<Rightarrow> store \<Rightarrow> error + body list" where
  "select_active_plans e s =
     (case db_fault e of
        Some err \<Rightarrow> Inl err
      | None \<Rightarrow>
          Inr (map plan_object
                 (order_by_desc (tie_rank e PlansListing) (\<lambda>r. p_created_at (fst r))
                    (\<lambda>r. p_id (fst r))
                    (filter (\<lambda>r. p_active (fst r) = SqlNum 1)
                       (left_join_users (users s) p_admin_id (plans s))))))"

subsection \<open>services\<close>

text \<open>\<^verbatim>\<open>INSERT INTO services (service, level, admin_id) VALUES (?, ?, ?)\<close>\<close>

definition insert_service ::
  "env \<Rightarrow> store \<Rightarrow> jsval \<Rightarrow> jsval \<Rightarrow> jsval \<Rightarrow> error + store" where
  "insert_service e s service level adminId =
     (case bind_all e [service, level, adminId] of
        Inl err \<Rightarrow> Inl err
      | Inr vs \<Rightarrow>
          Inr (s\<lparr>services := services s @
                 [\<lparr>s_id = next_id (map s_id (services s)), s_service = vs ! 0,
                   s_level = vs ! 1, s_admin_id = vs ! 2, s_created_at = db_time e\<rparr>]\<rparr>))"

text \<open>\<^verbatim>\<open>SELECT s.id, s.service, s.level, s.admin_id, u.name as admin_name, s.created_at
  FROM services s LEFT JOIN users u ON s.admin_id = u.id ORDER BY s.created_at DESC\<close>\<close>

definition service_object :: "service_row \<times> sqlval \<Rightarrow> jsval" where
  "service_object r =
     (case r of (sv, admin_name) \<Rightarrow>
       Obj [(''id'', js_of_id (s_id sv)), (''service'', js_of_sql (s_service sv)),
            (''level'', js_of_sql (s_level sv)), (''admin_id'', js_of_sql (s_admin_id sv)),
            (''admin_name'', js_of_sql admin_name), (''created_at'', Date (s_created_at sv))])"

definition select_services_joined :: "env \<Rightarrow> store \<Rightarrow> error + jsval list" where
  "select_services_joined e s =
     (case db_fault e of
        Some err \<Rightarrow> Inl err
      | None \<Rightarrow>
          Inr (map service_object
                 (order_by_desc (tie_rank e ServicesRich) (\<lambda>r. s_created_at (fst r))
                    (\<lambda>r. s_id (fst r))
                    (left_join_users (users s) s_admin_id (services s)))))"

text \<open>\<^verbatim>\<open>SELECT id, service, level, admin_id FROM services ORDER BY created_at DESC\<close>\<close>

definition service_object_legacy :: "service_row \<Rightarrow> jsval" where
  "service_object_legacy sv =
     Obj [(''id'', js_of_id (s_id sv)), (''service'', js_of_sql (s_service sv)),
          (''level'', js_of_sql (s_level sv)), (''admin_id'', js_of_sql (s_admin_id sv))]"

definition select_services :: "env \<Rightarrow> store \<Rightarrow> error + jsval list" where
  "select_services e s =
     (case db_fault e of
        Some err \<Rightarrow> Inl err
      | None \<Rightarrow>
          Inr (map service_object_legacy
                 (order_by_desc (tie_rank e ServicesLegacy) s_created_at s_id (services s))))"

subsection \<open>announcements\<close>

text \<open>\<^verbatim>\<open>INSERT INTO announcements (title, content, admin_id) VALUES (?, ?, ?)\<close>\<close>

definition insert_announcement ::
  "env \<Rightarrow> store \<Rightarrow> jsval \<Rightarrow> jsval \<Rightarrow> jsval \<Rightarrow> error + store" where
  "insert_announcement e s title content adminId =
     (case bind_all e [title, content, adminId] of
        Inl err \<Rightarrow> Inl err
      | Inr vs \<Rightarrow>
          Inr (s\<lparr>announcements := announcements s @
                 [\<lparr>a_id = next_id (map a_id (announcements s)), a_title = vs ! 0,
                   a_content = vs ! 1, a_admin_id = vs ! 2, a_created_at = db_time e\<rparr>]\<rparr>))"

text \<open>\<^verbatim>\<open>SELECT a.id, a.title, a.content, a.created_at, u.name AS admin_name
  FROM announcements a LEFT JOIN users u ON a.admin_id = u.id ORDER BY a.created_at DESC\<close>\<close>

definition announcement_object :: "announcement_row \<times> sqlval \<Rightarrow> jsval" where
  "announcement_object r =
     (case r of (a, admin_name) \<Rightarrow>
       Obj [(''id'', js_of_id (a_id a)), (''title'', js_of_sql (a_title a)),
            (''content'', js_of_sql (a_content a)), (''created_at'', Date (a_created_at a)),
            (''admin_name'', js_of_sql admin_name)])"

definition select_announcements_joined :: "env \<Rightarrow> store \<Rightarrow> error + jsval list" where
  "select_announcements_joined e s =
     (case db_fault e of
        Some err \<Rightarrow> Inl err
      | None \<Rightarrow>
          Inr (map announcement_object
                 (order_by_desc (tie_rank e AnnouncementsRich) (\<lambda>r. a_created_at (fst r))
                    (\<lambda>r. a_id (fst r))
                    (left_join_users (users s) a_admin_id (announcements s)))))"

text \<open>\<^verbatim>\<open>SELECT id, title, content, created_at FROM announcements ORDER BY created_at DESC\<close>\<close>

definition announcement_object_legacy :: "announcement_row \<Rightarrow> jsval" where
  "announcement_object_legacy a =
     Obj [(''id'', js_of_id (a_id a)), (''title'', js_of_sql (a_title a)),
          (''content'', js_of_sql (a_content a)), (''created_at'', Date (a_created_at a))]"

definition select_announcements :: "env \<Rightarrow> store \<Rightarrow> error + jsval list" where
  "select_announcements e s =
     (case db_fault e of
        Some err \<Rightarrow> Inl err
      | None \<Rightarrow>
          Inr (map announcement_object_legacy
                 (order_by_desc (tie_rank e AnnouncementsLegacy) a_created_at a_id
                    (announcements s))))"

subsection \<open>work\<close>

text \<open>\<^verbatim>\<open>INSERT INTO work (title, description, file_path, admin_id) VALUES (?, ?, ?, ?)\<close>\<close>

definition insert_work ::
  "env \<Rightarrow> store \<Rightarrow> jsval \<Rightarrow> jsval \<Rightarrow> jsval \<Rightarrow> jsval \<Rightarrow> error + store" where
  "insert_work e s title description filePath adminId =
     (case bind_all e [title, description, filePath, adminId] of
        Inl err \<Rightarrow> Inl err
      | Inr vs \<Rightarrow>
          Inr (s\<lparr>work := work s @
                 [\<lparr>w_id = next_id (map w_id (work s)), w_title = vs ! 0,
                   w_description = vs ! 1, w_file_path = vs ! 2, w_admin_id = vs ! 3,
                   w_created_at = db_time e\<rparr>]\<rparr>))"

text \<open>\<^verbatim>\<open>SELECT w.id, w.title, w.description, w.file_path, w.created_at, u.name AS admin_name
  FROM work w LEFT JOIN users u ON w.admin_id = u.id ORDER BY w.created_at DESC\<close>\<close>

definition work_object :: "work_row \<times> sqlval \<Rightarrow> jsval" where
  "work_object r =
     (case r of (w, admin_name) \<Rightarrow>
       Obj [(''id'', js_of_id (w_id w)), (''title'', js_of_sql (w_title w)),
            (''description'', js_of_sql (w_description w)),
            (''file_path'', js_of_sql (w_file_path w)),
            (''created_at'', Date (w_created_at w)),
            (''admin_name'', js_of_sql admin_name)])"

definition select_work_joined :: "env \<Rightarrow> store \<Rightarrow> error + jsval list" where
  "select_work_joined e s =
     (case db_fault e of
        Some err \<Rightarrow> Inl err
      | None \<Rightarrow>
          Inr (map work_object
                 (order_by_desc (tie_rank e WorkListing) (\<lambda>r. w_created_at (fst r))
                    (\<lambda>r. w_id (fst r))
                    (left_join_users (users s) w_admin_id (work s)))))"

subsection \<open>subscriptions\<close>

text \<open>\<^verbatim>\<open>INSERT INTO subscriptions (user_id, service_id) VALUES (?, ?)\<close>\<close>

definition insert_subscription_service :: "env \<Rightarrow> store \<Rightarrow> jsval \<Rightarrow> jsval \<Rightarrow> error + store" where
  "insert_subscription_service e s userId serviceId =
     (case bind_all e [userId, serviceId] of
        Inl err \<Rightarrow> Inl err
      | Inr vs \<Rightarrow>
          Inr (s\<lparr>subscriptions := subscriptions s @
                 [\<lparr>sub_id = next_id (map sub_id (subscriptions s)),
                   sub_user_id = vs ! 0, sub_service_id = vs ! 1, sub_plan_id = SqlNull\<rparr>]\<rparr>))"

text \<open>\<^verbatim>\<open>INSERT INTO subscriptions (user_id, plan_id) VALUES (?, ?)\<close>\<close>

definition insert_subscription_plan :: "env \<Rightarrow> store \<Rightarrow> jsval \<Rightarrow> jsval \<Rightarrow> error + store" where
  "insert_subscription_plan e s userId planId =
     (case bind_all e [userId, planId] of
        Inl err \<Rightarrow> Inl err
      | Inr vs \<Rightarrow>
          Inr (s\<lparr>subscriptions := subscriptions s @
                 [\<lparr>sub_id = next_id (map sub_id (subscriptions s)),
                   sub_user_id = vs ! 0, sub_service_id = SqlNull, sub_plan_id = vs ! 1\<rparr>]\<rparr>))"

section \<open>Responses\<close>

text \<open>\<^verbatim>\<open>res.status(n).json(v)\<close> is \<open>Json n v\<close> (\<^verbatim>\<open>res.json(v)\<close> answers 200). The answer
  of a successful login is kept structured: \<^verbatim>\<open>redirectUrl\<close> is the dashboard path
  followed by \<^verbatim>\<open>?name=\<close>, the encoded name, \<^verbatim>\<open>&id=\<close> and the id, and \<^verbatim>\<open>user\<close> is the
  object of the public fields. \<open>SendFile\<close> answers with a file, \<open>NotFound\<close> is the 404
  of the framework.\<close>

datatype response =
    Json nat jsval
  | LoginSuccess (redirect_path: string) (redirect_name: jsval) (redirect_id: jsval)
      (public_user: jsval)
  | SendFile string
  | NotFound

definition message :: "string \<Rightarrow> jsval" where
  "message m = Obj [(''message'', Str m)]"

definition success :: "string \<Rightarrow> jsval" where
  "success m = Obj [(''success'', Bool True), (''message'', Str m)]"

section \<open>Currency rate lookup\<close>

definition BASE_CURRENCY :: string where
  "BASE_CURRENCY = ''USD''"

text \<open>A truthy \<^verbatim>\<open>toCurrency\<close> that is not a string has no \<^verbatim>\<open>toUpperCase\<close>: the call
  in the first line, outside the \<^verbatim>\<open>try\<close>, throws. Every failure of the request to the
  rate service is caught.\<close>

definition getRate :: "env \<Rightarrow> jsval \<Rightarrow> error + jsval" where
  "getRate e toCurrency =
     (if \<not> truthy toCurrency then Inr (Num (Fin 1))
      else case toCurrency of
          Str c \<Rightarrow>
            if toUpperCase e c = BASE_CURRENCY then Inr (Num (Fin 1))
            else (case axios_get e (''https://api.exchangerate.host/latest?base=''
                                    @ BASE_CURRENCY @ ''&symbols='' @ c) of
                    Inl err \<Rightarrow> Inr (Num (Fin 1))
                  | Inr data \<Rightarrow>
                      Inr (or_else (opt_chain (opt_chain data ''rates'') (toUpperCase e c))
                             (Num (Fin 1))))
        | _ \<Rightarrow> Inl TypeError)"

section \<open>Authentication\<close>

text \<open>\<^verbatim>\<open>bcrypt.hash(s, 10)\<close> and \<^verbatim>\<open>bcrypt.compare(s, hash)\<close> of \<^verbatim>\<open>bcryptjs\<close>: both
  check the types of their arguments first and throw on anything that is not a
  string.\<close>

definition bcrypt_hash :: "env \<Rightarrow> jsval \<Rightarrow> error + string" where
  "bcrypt_hash e s = (case s of Str p \<Rightarrow> Inr (bcrypt_salted e p) | _ \<Rightarrow> Inl LibError)"

definition bcrypt_compare :: "env \<Rightarrow> jsval \<Rightarrow> jsval \<Rightarrow> error + bool" where
  "bcrypt_compare e s hash =
     (case s of
        Str p \<Rightarrow> (case hash of Str h \<Rightarrow> bcrypt_check e p h | _ \<Rightarrow> Inl LibError)
      | _ \<Rightarrow> Inl LibError)"

text \<open>POST /register\<close>

definition register :: "env \<Rightarrow> store \<Rightarrow> body \<Rightarrow> response \<times> store" where
  "register e s b =
     (let name = field b ''name''; email = field b ''email'';
          password = field b ''password''; accountType = field b ''accountType'';
          catch = (\<lambda>err. if code err = Some ''ER_DUP_ENTRY''
                          then (Json 400 (message ''Email already registered''), s)
                          else (Json 500 (message ''Error registering user''), s))
      in if \<not> truthy name \<or> \<not> truthy email \<or> \<not> truthy password \<or> \<not> truthy accountType
         then (Json 400 (message ''All fields are required''), s)
         else (case bcrypt_hash e password of
                 Inl err \<Rightarrow> catch err
               | Inr hashed \<Rightarrow>
                   (case insert_user e s name email (Str hashed) accountType of
                      Inl err \<Rightarrow> catch err
                    | Inr s' \<Rightarrow> (Json 201 (success ''Registration successful''), s'))))"

text \<open>POST /login\<close>

definition login :: "env \<Rightarrow> store \<Rightarrow> body \<Rightarrow> response \<times> store" where
  "login e s b =
     (let email = field b ''email''; password = field b ''password''
      in if \<not> truthy email \<or> \<not> truthy password
         then (Json 400 (message ''Email and password required''), s)
         else (case select_users_by_email e s email of
                 Inl err \<Rightarrow> (Json 500 (message ''Error logging in''), s)
               | Inr [] \<Rightarrow>
                   (Json 401 (Obj [(''success'', Bool False),
                                   (''message'', Str ''Invalid credentials'')]), s)
               | Inr (user # rest) \<Rightarrow>
                   (case bcrypt_compare e password (field user ''password'') of
                      Inl err \<Rightarrow> (Json 500 (message ''Error logging in''), s)
                    | Inr ok \<Rightarrow>
                        if \<not> ok
                        then (Json 401 (Obj [(''success'', Bool False),
                                             (''message'', Str ''Invalid credentials'')]), s)
                        else (LoginSuccess
                                (if field user ''account_type'' = Str ''admin''
                                 then ''/admin-dashboard'' else ''/user-dashboard'')
                                (field user ''name'') (field user ''id'')
                                (Obj [(''id'', field user ''id''),
                                      (''name'', field user ''name''),
                                      (''email'', field user ''email''),
                                      (''accountType'', field user ''account_type''),
                                      (''verified'',
                                         or_else (field user ''verified'') (Num (Fin 0))),
                                      (''subscription_expires_at'',
                                         or_else (field user ''subscription_expires_at'')
                                           Null)]), s))))"

section \<open>Plans\<close>

text \<open>POST /api/plans\<close>

definition createPlan :: "env \<Rightarrow> store \<Rightarrow> body \<Rightarrow> response \<times> store" where
  "createPlan e s b =
     (let adminId = field b ''adminId''; name = field b ''name'';
          description = field b ''description''; price = field b ''price'';
          duration = field b ''duration''
      in if \<not> truthy adminId \<or> \<not> truthy name \<or> \<not> truthy price \<or> \<not> truthy duration
         then (Json 400 (message ''adminId, name, price and duration are required''), s)
         else (case insert_plan e s adminId name (or_else description (Str [])) price
                      duration of
                 Inl err \<Rightarrow> (Json 500 (message ''Error creating plan''), s)
               | Inr (insertId, s') \<Rightarrow>
                   (Json 200 (Obj [(''success'', Bool True),
                                   (''message'', Str ''Plan created''),
                                   (''planId'', js_of_id insertId)]), s')))"

text \<open>\<^verbatim>\<open>Number(v)\<close>, and the conversion \<^verbatim>\<open>*\<close> applies to an operand.\<close>

definition to_number :: "env \<Rightarrow> jsval \<Rightarrow> error + jsnum" where
  "to_number e v =
     (case v of
        Undefined \<Rightarrow> Inr NaN
      | Null \<Rightarrow> Inr (Fin 0)
      | Bool b \<Rightarrow> Inr (Fin (if b then 1 else 0))
      | Num n \<Rightarrow> Inr n
      | Str s \<Rightarrow> Inr (string_to_number e s)
      | Date t \<Rightarrow> Inr (Fin (of_nat t))
      | Arr xs \<Rightarrow> object_to_number e v
      | Obj kvs \<Rightarrow> object_to_number e v)"

text \<open>The callback of \<^verbatim>\<open>plans.map\<close>.\<close>

definition map_plan :: "env \<Rightarrow> string \<Rightarrow> jsval \<Rightarrow> body \<Rightarrow> error + jsval" where
  "map_plan e currency rate p =
     (case to_number e (field p ''price_usd'') of
        Inl err \<Rightarrow> Inl err
      | Inr price_usd \<Rightarrow>
          (case to_number e rate of
             Inl err \<Rightarrow> Inl err
           | Inr r \<Rightarrow>
               Inr (Obj [(''id'', field p ''id''), (''admin_id'', field p ''admin_id''),
                         (''admin_name'', field p ''admin_name''),
                         (''name'', field p ''name''),
                         (''description'', field p ''description''),
                         (''price_usd'', Num price_usd),
                         (''duration_days'', field p ''duration_days''),
                         (''currency'', Str currency),
                         (''price_local'', Num (toFixed2_Number (js_mul price_usd r))),
                         (''created_at'', field p ''created_at'')])))"

fun map_err :: "('a \<Rightarrow> error + 'b) \<Rightarrow> 'a list \<Rightarrow> error + 'b list" where
  "map_err f [] = Inr []"
| "map_err f (x # xs) =
     (case f x of
        Inl err \<Rightarrow> Inl err
      | Inr y \<Rightarrow> (case map_err f xs of Inl err \<Rightarrow> Inl err | Inr ys \<Rightarrow> Inr (y # ys)))"

text \<open>GET /api/plans. A \<^verbatim>\<open>currency\<close> parameter that is truthy and not a string (the
  query parser gives an array for a repeated parameter) has no \<^verbatim>\<open>toUpperCase\<close>.\<close>

definition listPlans :: "env \<Rightarrow> store \<Rightarrow> body \<Rightarrow> response \<times> store" where
  "listPlans e s query =
     (let failed = (Json 500 (message ''Error fetching plans''), s)
      in case or_else (field query ''currency'') (Str BASE_CURRENCY) of
          Str c \<Rightarrow>
            (let currency = toUpperCase e c
             in case select_active_plans e s of
                 Inl err \<Rightarrow> failed
               | Inr rows \<Rightarrow>
                   (case getRate e (Str currency) of
                      Inl err \<Rightarrow> failed
                    | Inr rate \<Rightarrow>
                        (case map_err (map_plan e currency rate) rows of
                           Inl err \<Rightarrow> failed
                         | Inr mapped \<Rightarrow>
                             (Json 200 (Obj [(''plans'', Arr mapped),
                                             (''base'', Str BASE_CURRENCY),
                                             (''currency'', Str currency),
                                             (''rate'', rate)]), s))))
        | _ \<Rightarrow> failed)"

section \<open>Subscribe\<close>

text \<open>POST /subscribe\<close>

definition subscribe :: "env \<Rightarrow> store \<Rightarrow> body \<Rightarrow> response \<times> store" where
  "subscribe e s b =
     (let userId = field b ''userId''; serviceId = field b ''serviceId'';
          planId = field b ''planId''
      in if \<not> truthy userId \<or> (\<not> truthy serviceId \<and> \<not> truthy planId)
         then (Json 400 (message ''userId and serviceId or planId required''), s)
         else if truthy serviceId
         then (case insert_subscription_service e s userId serviceId of
                 Inl err \<Rightarrow> (Json 500 (message ''Error subscribing''), s)
               | Inr s' \<Rightarrow> (Json 200 (success ''Subscribed to service''), s'))
         else if truthy planId
         then (case insert_subscription_plan e s userId planId of
                 Inl err \<Rightarrow> (Json 500 (message ''Error subscribing''), s)
               | Inr s' \<Rightarrow> (Json 200 (success ''Subscribed to plan''), s'))
         else (Json 400 (message ''Invalid subscription request''), s))"


section \<open>Services\<close>

text \<open>POST /api/services\<close>

definition createService :: "env \<Rightarrow> store \<Rightarrow> body \<Rightarrow> response \<times> store" where
  "createService e s b =
     (let service = field b ''service''; level = field b ''level'';
          adminId = field b ''adminId''
      in if \<not> truthy service \<or> \<not> truthy level \<or> \<not> truthy adminId
         then (Json 400 (message ''All fields required''), s)
         else (case insert_service e s service level adminId of
                 Inl err \<Rightarrow> (Json 500 (message ''Error creating service''), s)
               | Inr s' \<Rightarrow> (Json 200 (success ''Service created''), s')))"

text \<open>GET /api/services\<close>

definition api_services :: "env \<Rightarrow> store \<Rightarrow> response \<times> store" where
  "api_services e s =
     (case select_services_joined e s of
        Inl err \<Rightarrow> (Json 500 (message ''Error fetching services''), s)
      | Inr rows \<Rightarrow> (Json 200 (Obj [(''services'', Arr rows)]), s))"

text \<open>GET /services\<close>

definition legacy_services :: "env \<Rightarrow> store \<Rightarrow> response \<times> store" where
  "legacy_services e s =
     (case select_services e s of
        Inl err \<Rightarrow> (Json 500 (message ''Error''), s)
      | Inr rows \<Rightarrow> (Json 200 (Arr rows), s))"

section \<open>Announcements\<close>

text \<open>POST /api/announcements\<close>

definition createAnnouncement :: "env \<Rightarrow> store \<Rightarrow> body \<Rightarrow> response \<times> store" where
  "createAnnouncement e s b =
     (let title = field b ''title''; content = field b ''content'';
          adminId = field b ''adminId''
      in if \<not> truthy content \<or> \<not> truthy adminId
         then (Json 400 (message ''content and adminId required''), s)
         else (case insert_announcement e s (or_else title (Str [])) content adminId of
                 Inl err \<Rightarrow> (Json 500 (message ''Error creating announcement''), s)
               | Inr s' \<Rightarrow> (Json 200 (success ''Announcement created''), s')))"

text \<open>GET /api/announcements\<close>

definition api_announcements :: "env \<Rightarrow> store \<Rightarrow> response \<times> store" where
  "api_announcements e s =
     (case select_announcements_joined e s of
        Inl err \<Rightarrow> (Json 500 (message ''Error fetching announcements''), s)
      | Inr rows \<Rightarrow> (Json 200 (Obj [(''announcements'', Arr rows)]), s))"

text \<open>GET /announcements\<close>

definition legacy_announcements :: "env \<Rightarrow> store \<Rightarrow> response \<times> store" where
  "legacy_announcements e s =
     (case select_announcements e s of
        Inl err \<Rightarrow> (Json 500 (message ''Error''), s)
      | Inr rows \<Rightarrow> (Json 200 (Arr rows), s))"

section \<open>Work uploads\<close>

definition UPLOADS_DIR :: "env \<Rightarrow> string" where
  "UPLOADS_DIR e = dirname e @ ''/uploads''"

text \<open>The \<^verbatim>\<open>filename\<close> callback of the disk storage.\<close>

definition storage_filename :: "env \<Rightarrow> string \<Rightarrow> string" where
  "storage_filename e originalname =
     decimal_string (date_now e) @ ''-'' @ replace_ws originalname"

text \<open>\<^verbatim>\<open>upload.single('file')\<close> runs before the handler: an attached file is written
  under the generated name, and \<^verbatim>\<open>req.file\<close> describes it.\<close>

record req_file =
  f_originalname :: string
  f_filename :: string
  f_path :: string

definition upload_single :: "env \<Rightarrow> store \<Rightarrow> string option \<Rightarrow> req_file option \<times> store" where
  "upload_single e s file =
     (case file of
        None \<Rightarrow> (None, s)
      | Some originalname \<Rightarrow>
          (let safeName = storage_filename e originalname
           in (Some \<lparr>f_originalname = originalname, f_filename = safeName,
                      f_path = UPLOADS_DIR e @ ''/'' @ safeName\<rparr>,
               s\<lparr>uploads := uploads s @ [safeName]\<rparr>)))"

text \<open>POST /api/work\<close>

definition uploadWork :: "env \<Rightarrow> store \<Rightarrow> body \<Rightarrow> string option \<Rightarrow> response \<times> store" where
  "uploadWork e s0 b file =
     (case upload_single e s0 file of (req_file, s) \<Rightarrow>
       (let title = field b ''title''; description = field b ''description'';
            adminId = field b ''adminId''
        in if \<not> truthy title \<or> \<not> truthy description \<or> \<not> truthy adminId
           then (Json 400 (message ''title, description and adminId required''), s)
           else (let filePath = (case req_file of Some f \<Rightarrow> Str (f_filename f) | None \<Rightarrow> Null)
                 in case insert_work e s title description filePath adminId of
                     Inl err \<Rightarrow> (Json 500 (message ''Error uploading work''), s)
                   | Inr s' \<Rightarrow> (Json 200 (success ''Work uploaded''), s'))))"

text \<open>GET /api/work\<close>

definition listWork :: "env \<Rightarrow> store \<Rightarrow> response \<times> store" where
  "listWork e s =
     (case select_work_joined e s of
        Inl err \<Rightarrow> (Json 500 (message ''Error fetching work''), s)
      | Inr rows \<Rightarrow> (Json 200 (Obj [(''work'', Arr rows)]), s))"

section \<open>The HTTP surface\<close>

datatype request =
    GetHome
  | GetAdminDashboard
  | GetUserDashboard
  | GetUpload string
  | PostRegister body
  | PostLogin body
  | PostApiPlans body
  | GetApiPlans body
  | PostSubscribe body
  | PostApiServices body
  | GetApiServices
  | GetServices
  | PostApiAnnouncements body
  | GetApiAnnouncements
  | GetAnnouncements
  | PostApiWork body "string option"
  | GetApiWork

fun handle :: "env \<Rightarrow> store \<Rightarrow> request \<Rightarrow> response \<times> store" where
  "handle e s GetHome = (SendFile (dirname e @ ''/public/index.html''), s)"
| "handle e s GetAdminDashboard = (SendFile (dirname e @ ''/public/admin-dashboard.html''), s)"
| "handle e s GetUserDashboard = (SendFile (dirname e @ ''/public/user-dashboard.html''), s)"
| "handle e s (GetUpload name) =
     (if name \<in> set (uploads s) then (SendFile (UPLOADS_DIR e @ ''/'' @ name), s)
      else (NotFound, s))"
| "handle e s (PostRegister b) = register e s b"
| "handle e s (PostLogin b) = login e s b"
| "handle e s (PostApiPlans b) = createPlan e s b"
| "handle e s (GetApiPlans query) = listPlans e s query"
| "handle e s (PostSubscribe b) = subscribe e s b"
| "handle e s (PostApiServices b) = createService e s b"
| "handle e s GetApiServices = api_services e s"
| "handle e s GetServices = legacy_services e s"
| "handle e s (PostApiAnnouncements b) = createAnnouncement e s b"
| "handle e s GetApiAnnouncements = api_announcements e s"
| "handle e s GetAnnouncements = legacy_announcements e s"
| "handle e s (PostApiWork b file) = uploadWork e s b file"
| "handle e s GetApiWork = listWork e s"

section \<open>Notions used in the properties\<close>


text \<open>A store that differs from an earlier one by appended rows only.\<close>

definition extends :: "store \<Rightarrow> store \<Rightarrow> bool" where
  "extends s s' =
     (prefix (users s) (users s') \<and> prefix (plans s) (plans s')
      \<and> prefix (services s) (services s') \<and> prefix (announcements s) (announcements s')
      \<and> prefix (work s) (work s') \<and> prefix (subscriptions s) (subscriptions s'))"


text \<open>\<^verbatim>\<open>Number\<close> of a column value, which never throws.\<close>

definition sql_number :: "env \<Rightarrow> sqlval \<Rightarrow> jsnum" where
  "sql_number e v =
     (case v of
        SqlNull \<Rightarrow> Fin 0
      | SqlNum x \<Rightarrow> Fin x
      | SqlStr t \<Rightarrow> string_to_number e t
      | SqlDate t \<Rightarrow> Fin (of_nat t))"

text \<open>The object \<open>map_plan\<close> returns once both conversions have succeeded.\<close>

definition mapped_plan :: "env \<Rightarrow> string \<Rightarrow> jsnum \<Rightarrow> body \<Rightarrow> jsnum \<Rightarrow> jsval" where
  "mapped_plan e currency r p price_usd =
     Obj [(''id'', field p ''id''), (''admin_id'', field p ''admin_id''),
          (''admin_name'', field p ''admin_name''), (''name'', field p ''name''),
          (''description'', field p ''description''), (''price_usd'', Num price_usd),
          (''duration_days'', field p ''duration_days''), (''currency'', Str currency),
          (''price_local'', Num (toFixed2_Number (js_mul price_usd r))),
          (''created_at'', field p ''created_at'')]"


section \<open>Concrete requests\<close>

text \<open>An environment in which the store and the libraries answer, the rate service is
  unreachable, the hash of a password is a fixed string, an object bound to a placeholder
  is written as the text \<^verbatim>\<open>[object Object]\<close>, no email equals a number, a boolean or
  an object, and rows of one instant come as they are in the table; one in
  which the rate service answers with given rates; one in which the two listings of the
  services rank rows of one instant in opposite ways; stores; and the requests the
  properties below are run on.\<close>

definition env_ok :: env where
  "env_ok =
     \<lparr>db_fault = None, db_time = 1000, date_now = 1700000000000,
      bind_object = (\<lambda>nested kvs. Some (SqlStr ''[object Object]'')),
      where_other = (\<lambda>nested v. Some (\<lambda>u. False)),
      tie_rank = (\<lambda>l i. 0),
      bcrypt_salted = (\<lambda>p. ''$2a$10$'' @ rev p),
      bcrypt_check = (\<lambda>p h. Inr (h = ''$2a$10$'' @ rev p)),
      axios_get = (\<lambda>url. Inl LibError), dirname = ''/srv/app'',
      upper_wide = (\<lambda>c. [c]),
      string_to_number = (\<lambda>s. NaN), object_to_number = (\<lambda>v. Inl TypeError)\<rparr>"

definition env_rates :: "jsval \<Rightarrow> env" where
  "env_rates rates =
     env_ok\<lparr>axios_get :=
       (\<lambda>url. Inr (Obj [(''success'', Bool True), (''base'', Str ''USD''),
                        (''rates'', rates)]))\<rparr>"



definition store_empty :: store where
  "store_empty =
     \<lparr>users = [], plans = [], services = [], announcements = [], work = [],
      subscriptions = [], uploads = []\<rparr>"

definition ann :: user_row where
  "ann =
     \<lparr>u_id = 1, u_name = SqlStr ''Ann'', u_email = SqlStr ''ann@legit.city'',
      u_password = SqlStr ''$2a$10$terces'', u_account_type = SqlStr ''admin'',
      u_verified = SqlNull, u_subscription_expires_at = SqlNull\<rparr>"

definition store_ann :: store where
  "store_ann = store_empty\<lparr>users := [ann]\<rparr>"

definition gold :: plan_row where
  "gold =
     \<lparr>p_id = 1, p_admin_id = SqlNum 1, p_name = SqlStr ''Gold'', p_description = SqlStr [],
      p_price_usd = SqlNum 100, p_duration_days = SqlNum 30, p_active = SqlNum 1,
      p_created_at = 1000\<rparr>"

definition plumbing :: service_row where
  "plumbing =
     \<lparr>s_id = 1, s_service = SqlStr ''Plumbing'', s_level = SqlStr ''basic'',
      s_admin_id = SqlNum 1, s_created_at = 1000\<rparr>"

definition wiring :: service_row where
  "wiring =
     \<lparr>s_id = 2, s_service = SqlStr ''Wiring'', s_level = SqlStr ''pro'',
      s_admin_id = SqlNum 7, s_created_at = 2000\<rparr>"

definition notice :: announcement_row where
  "notice =
     \<lparr>a_id = 1, a_title = SqlStr [], a_content = SqlStr ''Open'',
      a_admin_id = SqlNum 1, a_created_at = 1500\<rparr>"

definition store_site :: store where
  "store_site =
     store_ann\<lparr>plans := [gold], services := [plumbing, wiring], announcements := [notice]\<rparr>"


definition subscribe_both :: body where
  "subscribe_both =
     [(''userId'', Num (Fin 5)), (''serviceId'', Num (Fin 2)), (''planId'', Num (Fin 9))]"

definition subscribe_one_in_list :: body where
  "subscribe_one_in_list =
     [(''userId'', Num (Fin 5)), (''serviceId'', Arr [Num (Fin 2)]), (''planId'', Num (Fin 9))]"

definition subscribe_two_in_list :: body where
  "subscribe_two_in_list =
     [(''userId'', Num (Fin 5)), (''serviceId'', Arr [Num (Fin 2), Num (Fin 3)]),
      (''planId'', Num (Fin 9))]"

definition plan_free :: body where
  "plan_free =
     [(''adminId'', Num (Fin 1)), (''name'', Str ''Gold''), (''price'', Num (Fin 0)),
      (''duration'', Num (Fin 30))]"

definition register_ann :: body where
  "register_ann =
     [(''name'', Str ''Ann''), (''email'', Str ''ann@legit.city''),
      (''password'', Str ''secret''), (''accountType'', Str ''admin'')]"

definition register_no_password :: body where
  "register_no_password =
     [(''name'', Str ''Ann''), (''email'', Str ''ann@legit.city''),
      (''accountType'', Str ''admin'')]"

definition register_two_names :: body where
  "register_two_names =
     [(''name'', Arr [Str ''Ann'', Str ''Bob'']), (''email'', Str ''ann@legit.city''),
      (''password'', Str ''secret''), (''accountType'', Str ''admin'')]"

definition register_numeric :: body where
  "register_numeric =
     [(''name'', Str ''Ann''), (''email'', Str ''ann@legit.city''),
      (''password'', Num (Fin 123456)), (''accountType'', Str ''admin'')]"

definition login_unknown :: body where
  "login_unknown = [(''email'', Str ''bob@legit.city''), (''password'', Str ''secret'')]"

definition login_wrong :: body where
  "login_wrong = [(''email'', Str ''ann@legit.city''), (''password'', Str ''guess'')]"

definition login_unknown_numeric :: body where
  "login_unknown_numeric =
     [(''email'', Str ''bob@legit.city''), (''password'', Num (Fin 123456))]"

definition login_known_numeric :: body where
  "login_known_numeric =
     [(''email'', Str ''ann@legit.city''), (''password'', Num (Fin 123456))]"

definition work_fields :: body where
  "work_fields =
     [(''title'', Str ''Bridge''), (''description'', Str ''Photos''), (''adminId'', Str ''1'')]"


definition query_eur :: body where
  "query_eur = [(''currency'', Str ''eur'')]"

definition query_repeated :: body where
  "query_repeated = [(''currency'', Arr [Str ''eur'', Str ''gbp''])]"

subsection \<open>The concrete environment\<close>

lemma env_ok_fields:
  "db_fault env_ok = None" "db_time env_ok = 1000" "date_now env_ok = 1700000000000"
  "bcrypt_salted env_ok p = ''$2a$10$'' @ rev p"
  "bcrypt_check env_ok p h = Inr (h = ''$2a$10$'' @ rev p)"
  "axios_get env_ok url = Inl LibError" "dirname env_ok = ''/srv/app''"
  "string_to_number env_ok str = NaN" "tie_rank env_ok l i = 0"
  "bind_object env_ok nested kvs = Some (SqlStr ''[object Object]'')"
  by (simp_all add: env_ok_def)

lemma axios_get_env_rates:
  "axios_get (env_rates rates) url =
     Inr (Obj [(''success'', Bool True), (''base'', Str ''USD''), (''rates'', rates)])"
  by (simp add: env_rates_def)



lemma char_of_capitals:
  "char_of (69::nat) = CHR ''E''" "char_of (85::nat) = CHR ''U''"
  "char_of (82::nat) = CHR ''R''" "char_of (83::nat) = CHR ''S''"
  "char_of (68::nat) = CHR ''D''"
  by code_simp+

lemma upper_char_ascii:
  "upper_char e CHR ''e'' = ''E''" "upper_char e CHR ''u'' = ''U''"
  "upper_char e CHR ''r'' = ''R''" "upper_char e CHR ''s'' = ''S''"
  "upper_char e CHR ''d'' = ''D''" "upper_char e CHR ''U'' = ''U''"
  "upper_char e CHR ''S'' = ''S''" "upper_char e CHR ''D'' = ''D''"
  by (simp_all add: upper_char_def Let_def char_of_capitals)

lemma upper_eur: "toUpperCase e ''eur'' = ''EUR''"
  by (simp add: toUpperCase_def upper_char_ascii)


lemma char_of_E_acute: "char_of (201::nat) = CHR 0xC9"
  by code_simp

lemma upper_e_acute: "toUpperCase e [CHR 0xE9] = [CHR 0xC9]"
  by (simp add: toUpperCase_def upper_char_def Let_def char_of_E_acute)

lemma upper_usd: "toUpperCase e ''usd'' = ''USD''"
  by (simp add: toUpperCase_def upper_char_ascii)



lemma digits_now: "decimal_string 1700000000000 = ''1700000000000''"
  by code_simp

lemma replace_ws_cv: "replace_ws ''my  cv 2.pdf'' = ''my_cv_2.pdf''"
  by code_simp

subsection \<open>Values and statements\<close>

lemma select_by_string:
  assumes "db_fault e = None"
  shows "select_users_by_email e s (Str m) =
           Inr (map user_object (filter (\<lambda>u. u_email u = SqlStr m) (users s)))"
  using assms by (simp add: select_users_by_email_def)

lemma select_absent:
  assumes "db_fault e = None" "SqlStr m \<notin> set (map u_email (users s))"
  shows "select_users_by_email e s (Str m) = Inr []"
proof -
  have "filter (\<lambda>u. u_email u = SqlStr m) (users s) = []"
    using assms(2) by (force simp: filter_empty_conv)
  then show ?thesis
    using assms(1) by (simp add: select_by_string)
qed

lemma foldr_max_upper: "x \<in> set ids \<Longrightarrow> x \<le> foldr max ids (0::nat)"
  by (induction ids) (auto simp: max_def)

lemma next_id_fresh: "next_id ids \<notin> set ids"
proof
  assume "next_id ids \<in> set ids"
  then have "next_id ids \<le> foldr max ids 0" by (rule foldr_max_upper)
  then show False by (simp add: next_id_def)
qed

subsection \<open>Whitespace\<close>

lemma replace_ws_no_space: "c \<in> set (replace_ws s) \<Longrightarrow> \<not> is_space c"
  by (induction s rule: replace_ws.induct) (auto simp: is_space_def split: if_splits)

lemma replace_ws_plain:
  "\<forall>c\<in>set xs. \<not> is_space c \<Longrightarrow> replace_ws (xs @ ys) = xs @ replace_ws ys"
  by (induction xs) auto

lemma replace_ws_run:
  assumes "ws \<noteq> []" "\<forall>c\<in>set ws. is_space c" "ys = [] \<or> \<not> is_space (hd ys)"
  shows "replace_ws (ws @ ys) = CHR ''_'' # replace_ws ys"
proof -
  obtain w ws' where w: "ws = w # ws'" using assms(1) by (cases ws) auto
  have "dropWhile is_space (ws' @ ys) = ys"
    using assms(2,3) w by (cases ys) (auto simp: dropWhile_append)
  then show ?thesis using assms(2) w by simp
qed

subsection \<open>Only inserts\<close>

lemma extends_refl: "extends s s"
  by (simp add: extends_def)

lemma extends_register: "extends s (snd (register e s b))"
  by (auto simp: register_def Let_def insert_user_def extends_def split: sum.splits)

lemma snd_login: "snd (login e s b) = s"
  by (auto simp: login_def Let_def split: sum.splits list.splits)

lemma extends_createPlan: "extends s (snd (createPlan e s b))"
  by (auto simp: createPlan_def Let_def insert_plan_def extends_def split: sum.splits)

lemma snd_listPlans: "snd (listPlans e s q) = s"
  by (auto simp: listPlans_def Let_def split: sum.splits jsval.splits)

lemma extends_subscribe: "extends s (snd (subscribe e s b))"
  by (auto simp: subscribe_def Let_def insert_subscription_service_def
      insert_subscription_plan_def extends_def split: sum.splits)

lemma extends_createService: "extends s (snd (createService e s b))"
  by (auto simp: createService_def Let_def insert_service_def extends_def split: sum.splits)

lemma extends_createAnnouncement: "extends s (snd (createAnnouncement e s b))"
  by (auto simp: createAnnouncement_def Let_def insert_announcement_def extends_def
      split: sum.splits)

lemma extends_uploadWork: "extends s (snd (uploadWork e s b file))"
  by (auto simp: uploadWork_def upload_single_def Let_def insert_work_def extends_def
      split: sum.splits option.splits)

lemma snd_listings:
  "snd (api_services e s) = s" "snd (legacy_services e s) = s"
  "snd (api_announcements e s) = s" "snd (legacy_announcements e s) = s"
  "snd (listWork e s) = s"
  by (auto simp: api_services_def legacy_services_def api_announcements_def
      legacy_announcements_def listWork_def split: sum.splits)

text \<open>The key of \<^verbatim>\<open>users\<close> stays a key: the one handler that writes the table takes a
  fresh id.\<close>

lemma register_keeps_ids_distinct:
  assumes "distinct (map u_id (users s))"
  shows "distinct (map u_id (users (snd (register e s b))))"
  using assms next_id_fresh [of "map u_id (users s)"]
  by (auto simp: register_def Let_def insert_user_def split: sum.splits)

lemma users_untouched:
  "users (snd (createPlan e s b)) = users s"
  "users (snd (subscribe e s b)) = users s"
  "users (snd (createService e s b)) = users s"
  "users (snd (createAnnouncement e s b)) = users s"
  "users (snd (uploadWork e s b file)) = users s"
  by (auto simp: createPlan_def subscribe_def createService_def createAnnouncement_def
      uploadWork_def upload_single_def Let_def insert_plan_def insert_subscription_service_def
      insert_subscription_plan_def insert_service_def insert_announcement_def insert_work_def
      split: sum.splits option.splits)

lemma handle_keeps_ids_distinct:
  assumes "distinct (map u_id (users s))"
  shows "distinct (map u_id (users (snd (handle e s r))))"
  using assms
  by (cases r)
    (simp_all add: register_keeps_ids_distinct snd_login snd_listPlans snd_listings
      users_untouched)

subsection \<open>Joins and order\<close>












subsection \<open>The plan listing\<close>

lemma to_number_js_of_sql: "to_number e (js_of_sql v) = Inr (sql_number e v)"
  by (cases v) (simp_all add: to_number_def sql_number_def)

lemma price_usd_plan_object:
  "field (plan_object r) ''price_usd'' = js_of_sql (p_price_usd (fst r))"
  by (cases r) (simp add: plan_object_def field_def)

lemma map_plan_plan_object:
  assumes "to_number e rate = Inr r"
  shows "map_plan e currency rate (plan_object x) =
           Inr (mapped_plan e currency r (plan_object x) (sql_number e (p_price_usd (fst x))))"
  using assms
  by (simp add: map_plan_def price_usd_plan_object to_number_js_of_sql mapped_plan_def)




lemma select_active_plans_objects:
  "select_active_plans e s = Inr rows \<Longrightarrow> \<exists>xs. rows = map plan_object xs"
  by (auto simp: select_active_plans_def split: option.splits)

lemma select_active_plans_ok:
  "db_fault e = None \<Longrightarrow> \<exists>rows. select_active_plans e s = Inr rows"
  by (simp add: select_active_plans_def)

lemma map_err_plans:
  assumes "select_active_plans e s = Inr rows" "to_number e rate = Inr r"
  shows "\<exists>mapped. map_err (map_plan e currency rate) rows = Inr mapped"
proof -
  from assms(1) obtain xs where xs: "rows = map plan_object xs"
    using select_active_plans_objects by blast
  have "map_err (map_plan e currency rate) (map plan_object xs) =
     Inr (map (\<lambda>x. mapped_plan e currency r (plan_object x)
                     (sql_number e (p_price_usd (fst x)))) xs)"
    by (induction xs) (simp_all add: map_plan_plan_object [OF assms(2)])
  then show ?thesis using xs by blast
qed

lemma rates_no_index: "array_index ''rates'' = None"
  by (simp add: array_index_def is_digit_def)

lemma getRate_base: "toUpperCase e t = BASE_CURRENCY \<Longrightarrow> getRate e (Str t) = Inr (Num (Fin 1))"
  by (simp add: getRate_def)

lemma getRate_unreachable:
  assumes "\<forall>url. \<exists>err. axios_get e url = Inl err"
  shows "getRate e (Str t) = Inr (Num (Fin 1))"
proof -
  from assms obtain err where
    "axios_get e (''https://api.exchangerate.host/latest?base='' @ BASE_CURRENCY
                   @ ''&symbols='' @ t) = Inl err"
    by blast
  then show ?thesis by (simp add: getRate_def)
qed

lemma listPlans_rate_one:
  assumes db: "db_fault e = None"
    and cur: "or_else (field q ''currency'') (Str BASE_CURRENCY) = Str t"
    and rate: "getRate e (Str (toUpperCase e t)) = Inr (Num (Fin 1))"
  shows "\<exists>mapped. listPlans e s q =
           (Json 200 (Obj [(''plans'', Arr mapped), (''base'', Str BASE_CURRENCY),
                           (''currency'', Str (toUpperCase e t)), (''rate'', Num (Fin 1))]), s)"
proof -
  from db obtain rows where rows: "select_active_plans e s = Inr rows"
    using select_active_plans_ok by blast
  have "to_number e (Num (Fin 1)) = Inr (Fin 1)" by (simp add: to_number_def)
  then obtain mapped where
    "map_err (map_plan e (toUpperCase e t) (Num (Fin 1))) rows = Inr mapped"
    using map_err_plans [OF rows] by blast
  then show ?thesis using cur rows rate by (simp add: listPlans_def Let_def)
qed

subsection \<open>Rounding\<close>











section \<open>Properties\<close>

subsection \<open>Subscriptions\<close>

text \<open>
  C1. The subscribe request answers the 400 validation response exactly when
  \<^verbatim>\<open>userId\<close> is falsy or \<^verbatim>\<open>serviceId\<close> and \<^verbatim>\<open>planId\<close> are both falsy. When all three
  are present and the store executes the statement (it is reachable, and \<^verbatim>\<open>userId\<close> and
  \<^verbatim>\<open>serviceId\<close> are each written into the statement as one value), exactly one
  subscription row is appended; it references the service, its plan column is \<^verbatim>\<open>NULL\<close>,
  and nothing else in the store changes.
\<close>

theorem subscribe_service_precedence:
  "(fst (subscribe e s b) = Json 400 (message ''userId and serviceId or planId required''))
     = (\<not> truthy (field b ''userId'')
        \<or> (\<not> truthy (field b ''serviceId'') \<and> \<not> truthy (field b ''planId'')))
   \<and> (truthy (field b ''userId'') \<and> truthy (field b ''serviceId'')
        \<and> truthy (field b ''planId'') \<and> db_fault e = None
        \<and> bind_param e (field b ''userId'') = Some u
        \<and> bind_param e (field b ''serviceId'') = Some v
      \<longrightarrow> subscribe e s b =
            (Json 200 (success ''Subscribed to service''),
             s\<lparr>subscriptions := subscriptions s @
                 [\<lparr>sub_id = next_id (map sub_id (subscriptions s)), sub_user_id = u,
                   sub_service_id = v, sub_plan_id = SqlNull\<rparr>]\<rparr>))"
proof (intro conjI impI)
  show "(fst (subscribe e s b) = Json 400 (message ''userId and serviceId or planId required''))
     = (\<not> truthy (field b ''userId'')
        \<or> (\<not> truthy (field b ''serviceId'') \<and> \<not> truthy (field b ''planId'')))"
    by (auto simp: subscribe_def Let_def message_def success_def split: sum.splits)
next
  assume "truthy (field b ''userId'') \<and> truthy (field b ''serviceId'')
        \<and> truthy (field b ''planId'') \<and> db_fault e = None
        \<and> bind_param e (field b ''userId'') = Some u
        \<and> bind_param e (field b ''serviceId'') = Some v"
  then show "subscribe e s b =
            (Json 200 (success ''Subscribed to service''),
             s\<lparr>subscriptions := subscriptions s @
                 [\<lparr>sub_id = next_id (map sub_id (subscriptions s)), sub_user_id = u,
                   sub_service_id = v, sub_plan_id = SqlNull\<rparr>]\<rparr>)"
    by (simp add: subscribe_def Let_def insert_subscription_service_def bind_all_def)
qed

theorem subscribe_service_precedence_witness:
  "truthy (field subscribe_both ''userId'') \<and> truthy (field subscribe_both ''serviceId'')
   \<and> truthy (field subscribe_both ''planId'') \<and> db_fault env_ok = None
   \<and> bind_param env_ok (field subscribe_both ''userId'') = Some (SqlNum 5)
   \<and> bind_param env_ok (field subscribe_both ''serviceId'') = Some (SqlNum 2)
   \<and> subscribe env_ok store_empty subscribe_both =
       (Json 200 (success ''Subscribed to service''),
        store_empty\<lparr>subscriptions :=
          [\<lparr>sub_id = 1, sub_user_id = SqlNum 5, sub_service_id = SqlNum 2,
            sub_plan_id = SqlNull\<rparr>]\<rparr>)
   \<and> truthy (field subscribe_one_in_list ''serviceId'')
   \<and> bind_param env_ok (field subscribe_one_in_list ''serviceId'') = Some (SqlNum 2)
   \<and> subscribe env_ok store_empty subscribe_one_in_list =
       (Json 200 (success ''Subscribed to service''),
        store_empty\<lparr>subscriptions :=
          [\<lparr>sub_id = 1, sub_user_id = SqlNum 5, sub_service_id = SqlNum 2,
            sub_plan_id = SqlNull\<rparr>]\<rparr>)"
  using subscribe_service_precedence
    [of env_ok store_empty subscribe_both "SqlNum 5" "SqlNum 2"]
    subscribe_service_precedence
    [of env_ok store_empty subscribe_one_in_list "SqlNum 5" "SqlNum 2"]
  by (simp add: field_def subscribe_both_def subscribe_one_in_list_def env_ok_fields
      store_empty_def next_id_def)

text \<open>
  Without the condition on the store the second half of C1 fails: the request body
  \<^verbatim>\<open>{userId: 5, serviceId: [2, 3], planId: 9}\<close> has all three present, the statement is
  written with three values for two columns, the store refuses it, and the answer is 500
  with no row inserted.
\<close>

theorem subscribe_two_services_inserts_nothing:
  "truthy (field subscribe_two_in_list ''userId'')
   \<and> truthy (field subscribe_two_in_list ''serviceId'')
   \<and> truthy (field subscribe_two_in_list ''planId'')
   \<and> db_fault env_ok = None
   \<and> subscribe env_ok store_empty subscribe_two_in_list =
       (Json 500 (message ''Error subscribing''), store_empty)"
  by (simp add: subscribe_def Let_def field_def subscribe_two_in_list_def env_ok_fields
      insert_subscription_service_def bind_all_def)

subsection \<open>Currency rate lookup\<close>

text \<open>
  C2. \<open>getRate\<close> returns 1 for a falsy target and for a target whose upper-case form is
  the base currency \<^verbatim>\<open>USD\<close>; for a string target it returns 1 when the request to the
  rate service throws and when the answer is a text that was not parsed, and it never
  passes an error on to its caller. Hence a plan listing whose \<^verbatim>\<open>currency\<close> parameter
  is absent or a string, on a store that answers, succeeds with the rate 1 when the rate
  service is unreachable.
\<close>

theorem getRate_fail_open:
  "(\<not> truthy c \<longrightarrow> getRate e c = Inr (Num (Fin 1)))
   \<and> (toUpperCase e t = BASE_CURRENCY \<longrightarrow> getRate e (Str t) = Inr (Num (Fin 1)))
   \<and> ((\<exists>err. axios_get e (''https://api.exchangerate.host/latest?base='' @ BASE_CURRENCY
                              @ ''&symbols='' @ t) = Inl err)
        \<longrightarrow> getRate e (Str t) = Inr (Num (Fin 1)))
   \<and> ((\<exists>raw. axios_get e (''https://api.exchangerate.host/latest?base='' @ BASE_CURRENCY
                              @ ''&symbols='' @ t) = Inr (Str raw))
        \<longrightarrow> getRate e (Str t) = Inr (Num (Fin 1)))
   \<and> (\<exists>rate. getRate e (Str t) = Inr rate)
   \<and> ((\<forall>url. \<exists>err. axios_get e url = Inl err) \<and> db_fault e = None
        \<and> (\<not> truthy (field q ''currency'') \<or> (\<exists>a. field q ''currency'' = Str a))
      \<longrightarrow> (\<exists>mapped currency. listPlans e s q =
             (Json 200 (Obj [(''plans'', Arr mapped), (''base'', Str BASE_CURRENCY),
                             (''currency'', Str currency), (''rate'', Num (Fin 1))]), s)))"
proof (intro conjI impI)
  show "getRate e c = Inr (Num (Fin 1))" if "\<not> truthy c"
    using that by (simp add: getRate_def)
  show "getRate e (Str t) = Inr (Num (Fin 1))" if "toUpperCase e t = BASE_CURRENCY"
    using that by (rule getRate_base)
  show "getRate e (Str t) = Inr (Num (Fin 1))"
    if "\<exists>err. axios_get e (''https://api.exchangerate.host/latest?base='' @ BASE_CURRENCY
                              @ ''&symbols='' @ t) = Inl err"
    using that by (auto simp: getRate_def)
  show "getRate e (Str t) = Inr (Num (Fin 1))"
    if "\<exists>raw. axios_get e (''https://api.exchangerate.host/latest?base='' @ BASE_CURRENCY
                              @ ''&symbols='' @ t) = Inr (Str raw)"
    using that by (auto simp: getRate_def opt_chain_def or_else_def rates_no_index)
  show "\<exists>rate. getRate e (Str t) = Inr rate"
    by (auto simp: getRate_def split: sum.splits)
  show "\<exists>mapped currency. listPlans e s q =
             (Json 200 (Obj [(''plans'', Arr mapped), (''base'', Str BASE_CURRENCY),
                             (''currency'', Str currency), (''rate'', Num (Fin 1))]), s)"
    if h: "(\<forall>url. \<exists>err. axios_get e url = Inl err) \<and> db_fault e = None
        \<and> (\<not> truthy (field q ''currency'') \<or> (\<exists>a. field q ''currency'' = Str a))"
  proof -
    have "\<exists>a. or_else (field q ''currency'') (Str BASE_CURRENCY) = Str a"
      using h by (auto simp: or_else_def)
    then obtain a where a: "or_else (field q ''currency'') (Str BASE_CURRENCY) = Str a" ..
    have "getRate e (Str (toUpperCase e a)) = Inr (Num (Fin 1))"
      using h getRate_unreachable by blast
    then show ?thesis using listPlans_rate_one [OF _ a] h by blast
  qed
qed

theorem getRate_fail_open_witness:
  "\<not> truthy Undefined \<and> getRate env_ok Undefined = Inr (Num (Fin 1))
   \<and> toUpperCase env_ok ''usd'' = BASE_CURRENCY
   \<and> getRate env_ok (Str ''usd'') = Inr (Num (Fin 1))
   \<and> toUpperCase env_ok ''eur'' \<noteq> BASE_CURRENCY
   \<and> getRate env_ok (Str ''eur'') = Inr (Num (Fin 1))
   \<and> (\<forall>url. \<exists>err. axios_get env_ok url = Inl err) \<and> db_fault env_ok = None
   \<and> field query_eur ''currency'' = Str ''eur''
   \<and> (\<exists>mapped currency. listPlans env_ok store_site query_eur =
         (Json 200 (Obj [(''plans'', Arr mapped), (''base'', Str BASE_CURRENCY),
                         (''currency'', Str currency), (''rate'', Num (Fin 1))]), store_site))"
  using getRate_fail_open [of Undefined env_ok "''usd''" query_eur store_site]
    getRate_fail_open [of Undefined env_ok "''eur''" query_eur store_site]
  by (simp add: env_ok_fields upper_usd upper_eur BASE_CURRENCY_def query_eur_def field_def)

text \<open>
  Without the condition on the parameter the last part of C2 fails: for
  \<^verbatim>\<open>GET /api/plans?currency=eur&currency=gbp\<close> the parameter is an array, which has no
  \<^verbatim>\<open>toUpperCase\<close>, and the listing is answered 500 although the store answers.
\<close>

theorem listPlans_repeated_currency_fails:
  "axios_get env_ok ''https://api.exchangerate.host/latest?base=USD&symbols=eur'' = Inl LibError
   \<and> db_fault env_ok = None
   \<and> field query_repeated ''currency'' = Arr [Str ''eur'', Str ''gbp'']
   \<and> listPlans env_ok store_site query_repeated =
       (Json 500 (message ''Error fetching plans''), store_site)"
  by (simp add: listPlans_def Let_def field_def query_repeated_def or_else_def env_ok_fields)

text \<open>
  C10. For a target other than the base currency, when the rate service answers with an
  object that has no \<^verbatim>\<open>rates\<close>, or whose \<^verbatim>\<open>rates\<close> has no entry for the upper-case
  target, or has the entry 0 there, \<open>getRate\<close> returns 1. The entry looked up is the one
  under the upper-case form of the target as \<^verbatim>\<open>toUpperCase\<close> gives it, also for
  letters outside ASCII.
\<close>

theorem getRate_missing_or_zero_rate:
  assumes "c \<noteq> []" and "toUpperCase e c \<noteq> BASE_CURRENCY"
    and "axios_get e (''https://api.exchangerate.host/latest?base='' @ BASE_CURRENCY
                        @ ''&symbols='' @ c) = Inr (Obj d)"
    and "map_of d ''rates'' = None
         \<or> (\<exists>r. map_of d ''rates'' = Some (Obj r)
                \<and> (map_of r (toUpperCase e c) = None
                     \<or> map_of r (toUpperCase e c) = Some (Num (Fin 0))))"
  shows "getRate e (Str c) = Inr (Num (Fin 1))"
  using assms by (auto simp: getRate_def opt_chain_def or_else_def)

theorem getRate_missing_or_zero_rate_witness:
  "toUpperCase (env_rates (Obj [(''EUR'', Num (Fin 0))])) ''eur'' \<noteq> BASE_CURRENCY
   \<and> axios_get (env_rates (Obj [(''EUR'', Num (Fin 0))]))
         ''https://api.exchangerate.host/latest?base=USD&symbols=eur'' =
       Inr (Obj [(''success'', Bool True), (''base'', Str ''USD''),
                 (''rates'', Obj [(''EUR'', Num (Fin 0))])])
   \<and> getRate (env_rates (Obj [(''EUR'', Num (Fin 0))])) (Str ''eur'') = Inr (Num (Fin 1))
   \<and> getRate (env_rates (Obj [(''GBP'', Num (Fin (4 / 5)))])) (Str ''eur'') = Inr (Num (Fin 1))
   \<and> toUpperCase (env_rates (Obj [([CHR 0xC9], Num (Fin 0))])) [CHR 0xE9] = [CHR 0xC9]
   \<and> getRate (env_rates (Obj [([CHR 0xC9], Num (Fin 0))])) (Str [CHR 0xE9])
       = Inr (Num (Fin 1))
   \<and> getRate (env_rates (Obj [([CHR 0xC9], Num (Fin 2))])) (Str [CHR 0xE9])
       = Inr (Num (Fin 2))"
  using getRate_missing_or_zero_rate
      [of "''eur''" "env_rates (Obj [(''EUR'', Num (Fin 0))])"
          "[(''success'', Bool True), (''base'', Str ''USD''),
            (''rates'', Obj [(''EUR'', Num (Fin 0))])]"]
    getRate_missing_or_zero_rate
      [of "''eur''" "env_rates (Obj [(''GBP'', Num (Fin (4 / 5)))])"
          "[(''success'', Bool True), (''base'', Str ''USD''),
            (''rates'', Obj [(''GBP'', Num (Fin (4 / 5)))])]"]
    getRate_missing_or_zero_rate
      [of "[CHR 0xE9]" "env_rates (Obj [([CHR 0xC9], Num (Fin 0))])"
          "[(''success'', Bool True), (''base'', Str ''USD''),
            (''rates'', Obj [([CHR 0xC9], Num (Fin 0))])]"]
  by (simp add: axios_get_env_rates upper_eur upper_e_acute BASE_CURRENCY_def getRate_def
      opt_chain_def or_else_def)

subsection \<open>Plans\<close>





text \<open>
  C9. The required-field check of plan creation tests truthiness, so a request whose
  \<^verbatim>\<open>price\<close> is the number 0, or whose \<^verbatim>\<open>duration\<close> is the number 0, is answered with
  the 400 validation error whatever the other fields are, and the store is left as it
  was.
\<close>

theorem createPlan_rejects_zero:
  assumes "field b ''price'' = Num (Fin 0) \<or> field b ''duration'' = Num (Fin 0)"
  shows "createPlan e s b =
           (Json 400 (message ''adminId, name, price and duration are required''), s)"
  using assms by (auto simp: createPlan_def Let_def)

theorem createPlan_rejects_zero_witness:
  "field plan_free ''price'' = Num (Fin 0)
   \<and> truthy (field plan_free ''adminId'') \<and> truthy (field plan_free ''name'')
   \<and> truthy (field plan_free ''duration'')
   \<and> createPlan env_ok store_empty plan_free
     = (Json 400 (message ''adminId, name, price and duration are required''), store_empty)"
  using createPlan_rejects_zero [of plan_free env_ok store_empty]
  by (simp add: field_def plan_free_def)

subsection \<open>Authentication\<close>

text \<open>
  C4. A registration with a falsy \<^verbatim>\<open>name\<close>, \<^verbatim>\<open>email\<close>, \<^verbatim>\<open>password\<close> or
  \<^verbatim>\<open>accountType\<close> is answered with the 400 validation error and the store is left as it
  was. With the four fields present, the email and the password strings, and the
  statement executed by the store (it is reachable, and \<^verbatim>\<open>name\<close> and \<^verbatim>\<open>accountType\<close>
  are each written into the statement as one value): if the email is already in
  \<^verbatim>\<open>users\<close> the answer is the 400 duplicate-email error, whatever the other fields are,
  and the store is left as it was; otherwise one user row is appended whose password
  column is the hash of the password, and the answer is 201 with the success flag and
  message only.
\<close>

theorem register_outcomes:
  "(\<not> truthy (field b ''name'') \<or> \<not> truthy (field b ''email'')
      \<or> \<not> truthy (field b ''password'') \<or> \<not> truthy (field b ''accountType'')
    \<longrightarrow> register e s b = (Json 400 (message ''All fields are required''), s))
   \<and> (truthy (field b ''name'') \<and> truthy (field b ''email'')
        \<and> truthy (field b ''password'') \<and> truthy (field b ''accountType'')
        \<and> field b ''email'' = Str m \<and> field b ''password'' = Str p
        \<and> db_fault e = None
        \<and> bind_param e (field b ''name'') = Some n
        \<and> bind_param e (field b ''accountType'') = Some t
      \<longrightarrow> (SqlStr m \<in> set (map u_email (users s))
             \<longrightarrow> register e s b = (Json 400 (message ''Email already registered''), s))
          \<and> (SqlStr m \<notin> set (map u_email (users s))
             \<longrightarrow> register e s b =
                   (Json 201 (Obj [(''success'', Bool True),
                                   (''message'', Str ''Registration successful'')]),
                    s\<lparr>users := users s @
                        [\<lparr>u_id = next_id (map u_id (users s)), u_name = n, u_email = SqlStr m,
                          u_password = SqlStr (bcrypt_salted e p), u_account_type = t,
                          u_verified = SqlNull, u_subscription_expires_at = SqlNull\<rparr>]\<rparr>)))"
proof (intro conjI impI)
  assume "\<not> truthy (field b ''name'') \<or> \<not> truthy (field b ''email'')
      \<or> \<not> truthy (field b ''password'') \<or> \<not> truthy (field b ''accountType'')"
  then show "register e s b = (Json 400 (message ''All fields are required''), s)"
    by (auto simp: register_def Let_def)
next
  assume h: "truthy (field b ''name'') \<and> truthy (field b ''email'')
        \<and> truthy (field b ''password'') \<and> truthy (field b ''accountType'')
        \<and> field b ''email'' = Str m \<and> field b ''password'' = Str p
        \<and> db_fault e = None
        \<and> bind_param e (field b ''name'') = Some n
        \<and> bind_param e (field b ''accountType'') = Some t"
    and dup: "SqlStr m \<in> set (map u_email (users s))"
  from h dup have "insert_user e s (field b ''name'') (field b ''email'')
      (Str (bcrypt_salted e p)) (field b ''accountType'') = Inl (SqlError ''ER_DUP_ENTRY'')"
    by (simp add: insert_user_def bind_all_def)
  moreover from h have "p \<noteq> []" "m \<noteq> []" by auto
  ultimately show "register e s b = (Json 400 (message ''Email already registered''), s)"
    using h by (simp add: register_def Let_def bcrypt_hash_def)
next
  assume h: "truthy (field b ''name'') \<and> truthy (field b ''email'')
        \<and> truthy (field b ''password'') \<and> truthy (field b ''accountType'')
        \<and> field b ''email'' = Str m \<and> field b ''password'' = Str p
        \<and> db_fault e = None
        \<and> bind_param e (field b ''name'') = Some n
        \<and> bind_param e (field b ''accountType'') = Some t"
    and fresh: "SqlStr m \<notin> set (map u_email (users s))"
  from h fresh have "insert_user e s (field b ''name'') (field b ''email'')
      (Str (bcrypt_salted e p)) (field b ''accountType'') =
      Inr (s\<lparr>users := users s @
                        [\<lparr>u_id = next_id (map u_id (users s)), u_name = n, u_email = SqlStr m,
                          u_password = SqlStr (bcrypt_salted e p), u_account_type = t,
                          u_verified = SqlNull, u_subscription_expires_at = SqlNull\<rparr>]\<rparr>)"
    by (simp add: insert_user_def bind_all_def)
  moreover from h have "p \<noteq> []" "m \<noteq> []" by auto
  ultimately show "register e s b =
                   (Json 201 (Obj [(''success'', Bool True),
                                   (''message'', Str ''Registration successful'')]),
                    s\<lparr>users := users s @
                        [\<lparr>u_id = next_id (map u_id (users s)), u_name = n, u_email = SqlStr m,
                          u_password = SqlStr (bcrypt_salted e p), u_account_type = t,
                          u_verified = SqlNull, u_subscription_expires_at = SqlNull\<rparr>]\<rparr>)"
    using h by (simp add: register_def Let_def success_def bcrypt_hash_def)
qed

theorem register_outcomes_witness:
  "\<not> truthy (field register_no_password ''password'')
   \<and> register env_ok store_empty register_no_password =
       (Json 400 (message ''All fields are required''), store_empty)
   \<and> truthy (field register_ann ''name'') \<and> truthy (field register_ann ''email'')
   \<and> truthy (field register_ann ''password'') \<and> truthy (field register_ann ''accountType'')
   \<and> field register_ann ''email'' = Str ''ann@legit.city''
   \<and> field register_ann ''password'' = Str ''secret''
   \<and> bcrypt_salted env_ok ''secret'' = ''$2a$10$terces''
   \<and> db_fault env_ok = None
   \<and> SqlStr ''ann@legit.city'' \<in> set (map u_email (users store_ann))
   \<and> register env_ok store_ann register_ann =
       (Json 400 (message ''Email already registered''), store_ann)
   \<and> SqlStr ''ann@legit.city'' \<notin> set (map u_email (users store_empty))
   \<and> register env_ok store_empty register_ann =
       (Json 201 (Obj [(''success'', Bool True),
                       (''message'', Str ''Registration successful'')]), store_ann)"
  using register_outcomes
      [of register_no_password env_ok store_empty "''ann@legit.city''" "''secret''"
          "SqlStr ''Ann''" "SqlStr ''admin''"]
    register_outcomes
      [of register_ann env_ok store_ann "''ann@legit.city''" "''secret''"
          "SqlStr ''Ann''" "SqlStr ''admin''"]
    register_outcomes
      [of register_ann env_ok store_empty "''ann@legit.city''" "''secret''"
          "SqlStr ''Ann''" "SqlStr ''admin''"]
  by (simp add: field_def register_ann_def register_no_password_def env_ok_fields
      store_ann_def store_empty_def ann_def next_id_def)

text \<open>
  Without the conditions on the password and on the statement the second half of C4
  fails. With the number \<^verbatim>\<open>123456\<close> for the password all four fields are present,
  \<^verbatim>\<open>bcrypt.hash\<close> throws before any statement is sent, and the answer is 500, for an
  email that is in \<^verbatim>\<open>users\<close> (not the duplicate-email error) and for one that is not
  (no row is inserted). With a list of two names the statement is written with five
  values for four columns, the store refuses it, and the answer is 500 although the email
  is in \<^verbatim>\<open>users\<close>.
\<close>

theorem register_numeric_password_fails:
  "truthy (field register_numeric ''name'') \<and> truthy (field register_numeric ''email'')
   \<and> truthy (field register_numeric ''password'')
   \<and> truthy (field register_numeric ''accountType'')
   \<and> db_fault env_ok = None
   \<and> SqlStr ''ann@legit.city'' \<in> set (map u_email (users store_ann))
   \<and> register env_ok store_ann register_numeric =
       (Json 500 (message ''Error registering user''), store_ann)
   \<and> SqlStr ''ann@legit.city'' \<notin> set (map u_email (users store_empty))
   \<and> register env_ok store_empty register_numeric =
       (Json 500 (message ''Error registering user''), store_empty)
   \<and> truthy (field register_two_names ''name'')
   \<and> truthy (field register_two_names ''email'')
   \<and> truthy (field register_two_names ''password'')
   \<and> truthy (field register_two_names ''accountType'')
   \<and> register env_ok store_ann register_two_names =
       (Json 500 (message ''Error registering user''), store_ann)"
  by (simp add: register_def Let_def field_def register_numeric_def register_two_names_def
      bcrypt_hash_def insert_user_def bind_all_def env_ok_fields store_ann_def store_empty_def
      ann_def)

text \<open>
  C5. Two login attempts with both fields present, on a store that answers: one with an
  email, a string, that no user has, and one with the email, a string, of a user whose
  stored hash is a string that the password, a string, does not match. They get the same
  answer: status 401 with the generic invalid-credentials message.
\<close>

theorem login_failures_indistinguishable:
  assumes "field b1 ''email'' = Str m1" "m1 \<noteq> []" "truthy (field b1 ''password'')"
    and "field b2 ''email'' = Str m2" "m2 \<noteq> []"
    and "field b2 ''password'' = Str p2" "p2 \<noteq> []"
    and "db_fault e = None"
    and "SqlStr m1 \<notin> set (map u_email (users s))"
    and "filter (\<lambda>u. u_email u = SqlStr m2) (users s) = u # us"
    and "u_password u = SqlStr h" "bcrypt_check e p2 h = Inr False"
  shows "fst (login e s b1) = fst (login e s b2)
         \<and> fst (login e s b2) =
             Json 401 (Obj [(''success'', Bool False),
                            (''message'', Str ''Invalid credentials'')])"
proof -
  have 1: "select_users_by_email e s (field b1 ''email'') = Inr []"
    unfolding assms(1) using assms(8,9) by (rule select_absent)
  have 2: "select_users_by_email e s (field b2 ''email'') =
             Inr (user_object u # map user_object us)"
    unfolding assms(4) using assms(8,10) by (simp add: select_by_string)
  have 3: "field (user_object u) ''password'' = Str h"
    using assms(11) by (simp add: user_object_def field_def)
  have r1: "fst (login e s b1) =
              Json 401 (Obj [(''success'', Bool False),
                             (''message'', Str ''Invalid credentials'')])"
    using assms(1,2,3) 1 by (simp add: login_def Let_def)
  have r2: "fst (login e s b2) =
              Json 401 (Obj [(''success'', Bool False),
                             (''message'', Str ''Invalid credentials'')])"
    using assms(4,5,6,7,12) 2 3 by (simp add: login_def Let_def bcrypt_compare_def)
  show ?thesis using r1 r2 by simp
qed

theorem login_failures_indistinguishable_witness:
  "field login_unknown ''email'' = Str ''bob@legit.city''
   \<and> truthy (field login_unknown ''password'')
   \<and> field login_wrong ''email'' = Str ''ann@legit.city''
   \<and> field login_wrong ''password'' = Str ''guess''
   \<and> db_fault env_ok = None
   \<and> SqlStr ''bob@legit.city'' \<notin> set (map u_email (users store_ann))
   \<and> filter (\<lambda>u. u_email u = SqlStr ''ann@legit.city'') (users store_ann) = [ann]
   \<and> u_password ann = SqlStr ''$2a$10$terces''
   \<and> bcrypt_check env_ok ''guess'' ''$2a$10$terces'' = Inr False
   \<and> fst (login env_ok store_ann login_unknown) = fst (login env_ok store_ann login_wrong)
   \<and> fst (login env_ok store_ann login_wrong) =
       Json 401 (Obj [(''success'', Bool False), (''message'', Str ''Invalid credentials'')])"
  using login_failures_indistinguishable
      [of login_unknown "''bob@legit.city''" login_wrong "''ann@legit.city''" "''guess''"
          env_ok store_ann ann "[]" "''$2a$10$terces''"]
  by (simp add: field_def login_unknown_def login_wrong_def env_ok_fields store_ann_def
      store_empty_def ann_def)

text \<open>
  Without the condition on the password C5 fails: with the number \<^verbatim>\<open>123456\<close> for the
  password, which matches no hash, the attempt with an email no user has is answered 401
  (the password is never looked at), and the attempt with the email of a user is
  answered 500, because \<^verbatim>\<open>bcrypt.compare\<close> throws. The two answers tell the caller
  whether the email is registered.
\<close>

theorem login_numeric_password_distinguishes:
  "truthy (field login_unknown_numeric ''email'')
   \<and> truthy (field login_unknown_numeric ''password'')
   \<and> truthy (field login_known_numeric ''email'')
   \<and> truthy (field login_known_numeric ''password'')
   \<and> db_fault env_ok = None
   \<and> SqlStr ''bob@legit.city'' \<notin> set (map u_email (users store_ann))
   \<and> SqlStr ''ann@legit.city'' \<in> set (map u_email (users store_ann))
   \<and> fst (login env_ok store_ann login_unknown_numeric) =
       Json 401 (Obj [(''success'', Bool False), (''message'', Str ''Invalid credentials'')])
   \<and> fst (login env_ok store_ann login_known_numeric) =
       Json 500 (message ''Error logging in'')
   \<and> fst (login env_ok store_ann login_unknown_numeric)
       \<noteq> fst (login env_ok store_ann login_known_numeric)"
  by (simp add: login_def Let_def field_def login_unknown_numeric_def
      login_known_numeric_def select_users_by_email_def bind_all_def bcrypt_compare_def
      user_object_def env_ok_fields store_ann_def store_empty_def ann_def)

subsection \<open>Work uploads\<close>

text \<open>
  C6. An upload with a falsy \<^verbatim>\<open>title\<close>, \<^verbatim>\<open>description\<close> or \<^verbatim>\<open>adminId\<close> is answered
  with the 400 validation error and adds no work row. With the three fields present and
  the statement executed by the store, one work row is appended whose \<^verbatim>\<open>file_path\<close> is
  \<^verbatim>\<open>NULL\<close> when no file is attached and otherwise the generated name: the digits of the
  timestamp, a hyphen, and the original name with every run of whitespace replaced by one
  underscore. That name is not the path of the file under the uploads directory.
\<close>

theorem uploadWork_file_path:
  "(\<not> truthy (field b ''title'') \<or> \<not> truthy (field b ''description'')
      \<or> \<not> truthy (field b ''adminId'')
    \<longrightarrow> fst (uploadWork e s b file) =
          Json 400 (message ''title, description and adminId required'')
        \<and> work (snd (uploadWork e s b file)) = work s)
   \<and> (truthy (field b ''title'') \<and> truthy (field b ''description'')
        \<and> truthy (field b ''adminId'') \<and> db_fault e = None
        \<and> bind_param e (field b ''title'') = Some t
        \<and> bind_param e (field b ''description'') = Some d
        \<and> bind_param e (field b ''adminId'') = Some a
      \<longrightarrow> fst (uploadWork e s b file) = Json 200 (success ''Work uploaded'')
          \<and> work (snd (uploadWork e s b file)) = work s @
               [\<lparr>w_id = next_id (map w_id (work s)), w_title = t, w_description = d,
                 w_file_path =
                   (case file of
                      None \<Rightarrow> SqlNull
                    | Some originalname \<Rightarrow>
                        SqlStr (decimal_string (date_now e) @ ''-'' @ replace_ws originalname)),
                 w_admin_id = a, w_created_at = db_time e\<rparr>]
          \<and> (\<forall>originalname. file = Some originalname \<longrightarrow>
                w_file_path (last (work (snd (uploadWork e s b file))))
                  \<noteq> SqlStr (UPLOADS_DIR e @ ''/'' @ storage_filename e originalname)))"
proof (intro conjI impI allI)
  assume "\<not> truthy (field b ''title'') \<or> \<not> truthy (field b ''description'')
      \<or> \<not> truthy (field b ''adminId'')"
  then show "fst (uploadWork e s b file) =
          Json 400 (message ''title, description and adminId required'')"
    and "work (snd (uploadWork e s b file)) = work s"
    by (auto simp: uploadWork_def upload_single_def Let_def split: option.splits)
next
  assume h: "truthy (field b ''title'') \<and> truthy (field b ''description'')
        \<and> truthy (field b ''adminId'') \<and> db_fault e = None
        \<and> bind_param e (field b ''title'') = Some t
        \<and> bind_param e (field b ''description'') = Some d
        \<and> bind_param e (field b ''adminId'') = Some a"
  then show "fst (uploadWork e s b file) = Json 200 (success ''Work uploaded'')"
    by (auto simp: uploadWork_def upload_single_def Let_def insert_work_def bind_all_def
        split: option.splits)
  from h show 2: "work (snd (uploadWork e s b file)) = work s @
               [\<lparr>w_id = next_id (map w_id (work s)), w_title = t, w_description = d,
                 w_file_path =
                   (case file of
                      None \<Rightarrow> SqlNull
                    | Some originalname \<Rightarrow>
                        SqlStr (decimal_string (date_now e) @ ''-'' @ replace_ws originalname)),
                 w_admin_id = a, w_created_at = db_time e\<rparr>]"
    by (auto simp: uploadWork_def upload_single_def Let_def insert_work_def bind_all_def
        storage_filename_def split: option.splits)
  fix originalname assume "file = Some originalname"
  then show "w_file_path (last (work (snd (uploadWork e s b file))))
                  \<noteq> SqlStr (UPLOADS_DIR e @ ''/'' @ storage_filename e originalname)"
    using 2 by (simp add: storage_filename_def UPLOADS_DIR_def)
qed

theorem uploadWork_file_path_witness:
  "\<not> truthy (field [] ''title'')
   \<and> fst (uploadWork env_ok store_empty [] (Some ''my  cv 2.pdf'')) =
       Json 400 (message ''title, description and adminId required'')
   \<and> truthy (field work_fields ''title'') \<and> truthy (field work_fields ''description'')
   \<and> truthy (field work_fields ''adminId'') \<and> db_fault env_ok = None
   \<and> work (snd (uploadWork env_ok store_empty work_fields (Some ''my  cv 2.pdf''))) =
       [\<lparr>w_id = 1, w_title = SqlStr ''Bridge'', w_description = SqlStr ''Photos'',
         w_file_path = SqlStr ''1700000000000-my_cv_2.pdf'', w_admin_id = SqlStr ''1'',
         w_created_at = 1000\<rparr>]
   \<and> work (snd (uploadWork env_ok store_empty work_fields None)) =
       [\<lparr>w_id = 1, w_title = SqlStr ''Bridge'', w_description = SqlStr ''Photos'',
         w_file_path = SqlNull, w_admin_id = SqlStr ''1'', w_created_at = 1000\<rparr>]"
  using uploadWork_file_path
      [of "[]" env_ok store_empty "Some ''my  cv 2.pdf''" "SqlStr ''Bridge''"
          "SqlStr ''Photos''" "SqlStr ''1''"]
    uploadWork_file_path
      [of work_fields env_ok store_empty "Some ''my  cv 2.pdf''" "SqlStr ''Bridge''"
          "SqlStr ''Photos''" "SqlStr ''1''"]
    uploadWork_file_path
      [of work_fields env_ok store_empty None "SqlStr ''Bridge''"
          "SqlStr ''Photos''" "SqlStr ''1''"]
  by (simp add: field_def work_fields_def env_ok_fields store_empty_def next_id_def
      digits_now replace_ws_cv del: replace_ws.simps)

subsection \<open>Listings\<close>




subsection \<open>The whole surface\<close>

text \<open>
  C8. Whatever the request and the environment, every table after the request begins
  with the table as it was before: the rows of \<^verbatim>\<open>users\<close>, \<^verbatim>\<open>plans\<close>, \<^verbatim>\<open>services\<close>,
  \<^verbatim>\<open>announcements\<close>, \<^verbatim>\<open>work\<close> and \<^verbatim>\<open>subscriptions\<close> that were there are still there,
  unchanged and in place, and what is new has been appended.
\<close>

theorem handle_only_inserts:
  "prefix (users s) (users (snd (handle e s r)))
   \<and> prefix (plans s) (plans (snd (handle e s r)))
   \<and> prefix (services s) (services (snd (handle e s r)))
   \<and> prefix (announcements s) (announcements (snd (handle e s r)))
   \<and> prefix (work s) (work (snd (handle e s r)))
   \<and> prefix (subscriptions s) (subscriptions (snd (handle e s r)))"
proof -
  have "extends s (snd (handle e s r))"
    by (cases r)
      (simp_all add: extends_register snd_login extends_createPlan snd_listPlans
        extends_subscribe extends_createService extends_createAnnouncement
        extends_uploadWork snd_listings extends_refl)
  then show ?thesis by (simp add: extends_def)
qed

theorem handle_only_inserts_witness:
  "users (snd (handle env_ok store_ann (PostSubscribe subscribe_both))) = [ann]
   \<and> subscriptions (snd (handle env_ok store_ann (PostSubscribe subscribe_both))) =
       [\<lparr>sub_id = 1, sub_user_id = SqlNum 5, sub_service_id = SqlNum 2,
         sub_plan_id = SqlNull\<rparr>]
   \<and> prefix (users store_ann)
         (users (snd (handle env_ok store_ann (PostSubscribe subscribe_both))))
   \<and> prefix (subscriptions store_ann)
         (subscriptions (snd (handle env_ok store_ann (PostSubscribe subscribe_both))))"
  using handle_only_inserts [of store_ann env_ok "PostSubscribe subscribe_both"]
  by (simp add: subscribe_def Let_def field_def subscribe_both_def env_ok_fields
      insert_subscription_service_def bind_all_def store_ann_def store_empty_def next_id_def)

end
